theory Spec2Isabelle
  imports Complex_Main "HOL-Library.Multiset" "HOL-Library.Log_Nat"
begin

section \<open>Floating-point numbers\<close>

text \<open>
  Prices and percentages are IEEE 754 binary64 numbers (Python \<open>float\<close>, numpy
  \<open>float64\<close>). \<open>Finite q\<close> is the double whose value is the rational \<open>q\<close>, with
  \<open>Finite 0\<close> the positive zero; \<open>NegZero\<close> is the negative zero. An arithmetic
  operation computes the exact rational result and rounds it to the nearest double, a
  tie going to the even significand (\<open>round_double\<close>); it overflows to an infinity,
  underflows through the subnormal numbers to a signed zero, and follows the IEEE rules
  for zeros, infinities and NaN. numpy raises nothing on a division by zero: the value
  is an infinity or NaN.
\<close>

datatype pyfloat = Finite rat | NegZero | PosInf | NegInf | NaN

definition pow2 :: "int \<Rightarrow> rat" where
  "pow2 e = (if 0 \<le> e then 2 ^ nat e else 1 / 2 ^ nat (- e))"

text \<open>The binary exponent of a positive rational: \<open>2 ^ ilog2 a \<le> a < 2 ^ (ilog2 a + 1)\<close>.\<close>

definition ilog2 :: "rat \<Rightarrow> int" where
  "ilog2 a = (if 1 \<le> a then bitlen \<lfloor>a\<rfloor> - 1 else - bitlen (\<lceil>1 / a\<rceil> - 1))"

definition round_half_even :: "rat \<Rightarrow> int" where
  "round_half_even q =
     (let f = \<lfloor>q\<rfloor>; d = q - of_int f
      in if d < 1 / 2 then f else if 1 / 2 < d then f + 1
         else if even f then f else f + 1)"

text \<open>
  The double nearest to a rational: 53 significant bits, exponents from \<open>-1022\<close> (below
  it the spacing of the subnormal numbers, \<open>2 ^ -1074\<close>) to \<open>1023\<close>.
\<close>

definition round_double :: "rat \<Rightarrow> pyfloat" where
  "round_double q =
     (if q = 0 then Finite 0
      else
        let e = max (ilog2 \<bar>q\<bar>) (- 1022)
        in if 1024 \<le> e then (if 0 < q then PosInf else NegInf)
           else
             let m = round_half_even (\<bar>q\<bar> / pow2 (e - 52))
             in if e = 1023 \<and> m = 2 ^ 53 then (if 0 < q then PosInf else NegInf)
                else if m = 0 then (if 0 < q then Finite 0 else NegZero)
                else Finite ((if 0 < q then 1 else - 1) * of_int m * pow2 (e - 52)))"

fun is_finite :: "pyfloat \<Rightarrow> bool" where
  "is_finite (Finite q) = True"
| "is_finite NegZero = True"
| "is_finite x = False"

fun val :: "pyfloat \<Rightarrow> rat" where
  "val (Finite q) = q"
| "val x = 0"

fun negative :: "pyfloat \<Rightarrow> bool" where
  "negative (Finite q) = (q < 0)"
| "negative NegZero = True"
| "negative NegInf = True"
| "negative x = False"

definition signed_zero :: "bool \<Rightarrow> pyfloat" where
  "signed_zero neg = (if neg then NegZero else Finite 0)"

definition signed_inf :: "bool \<Rightarrow> pyfloat" where
  "signed_inf neg = (if neg then NegInf else PosInf)"

fun fl_neg :: "pyfloat \<Rightarrow> pyfloat" where
  "fl_neg (Finite q) = (if q = 0 then NegZero else Finite (- q))"
| "fl_neg NegZero = Finite 0"
| "fl_neg PosInf = NegInf"
| "fl_neg NegInf = PosInf"
| "fl_neg NaN = NaN"

definition fl_add :: "pyfloat \<Rightarrow> pyfloat \<Rightarrow> pyfloat" where
  "fl_add x y =
     (if x = NaN \<or> y = NaN then NaN
      else if is_finite x \<and> is_finite y
        then (if val x = 0 \<and> val y = 0 then signed_zero (negative x \<and> negative y)
              else round_double (val x + val y))
      else if is_finite y then x
      else if is_finite x then y
      else if x = y then x else NaN)"

definition fl_sub :: "pyfloat \<Rightarrow> pyfloat \<Rightarrow> pyfloat" where
  "fl_sub x y = fl_add x (fl_neg y)"

definition fl_mul :: "pyfloat \<Rightarrow> pyfloat \<Rightarrow> pyfloat" where
  "fl_mul x y =
     (if x = NaN \<or> y = NaN then NaN
      else if is_finite x \<and> is_finite y
        then (if val x * val y = 0 then signed_zero (negative x \<noteq> negative y)
              else round_double (val x * val y))
      else if (is_finite x \<and> val x = 0) \<or> (is_finite y \<and> val y = 0) then NaN
      else signed_inf (negative x \<noteq> negative y))"

definition fl_div :: "pyfloat \<Rightarrow> pyfloat \<Rightarrow> pyfloat" where
  "fl_div x y =
     (if x = NaN \<or> y = NaN then NaN
      else if is_finite x \<and> is_finite y
        then (if val y = 0
              then (if val x = 0 then NaN else signed_inf (negative x \<noteq> negative y))
              else if val x = 0 then signed_zero (negative x \<noteq> negative y)
              else round_double (val x / val y))
      else if is_finite y then signed_inf (negative x \<noteq> negative y)
      else if is_finite x then signed_zero (negative x \<noteq> negative y)
      else NaN)"

fun fl_abs :: "pyfloat \<Rightarrow> pyfloat" where
  "fl_abs (Finite q) = Finite \<bar>q\<bar>"
| "fl_abs NegZero = Finite 0"
| "fl_abs PosInf = PosInf"
| "fl_abs NegInf = PosInf"
| "fl_abs NaN = NaN"

text \<open>Comparisons: every comparison with NaN is false, and the two zeros are equal.\<close>

definition fl_less :: "pyfloat \<Rightarrow> pyfloat \<Rightarrow> bool" where
  "fl_less x y =
     (if x = NaN \<or> y = NaN then False
      else if is_finite x \<and> is_finite y then val x < val y
      else x \<noteq> y \<and> (x = NegInf \<or> y = PosInf))"

definition fl_ge :: "pyfloat \<Rightarrow> pyfloat \<Rightarrow> bool" where
  "fl_ge x y =
     (if x = NaN \<or> y = NaN then False
      else if is_finite x \<and> is_finite y then val y \<le> val x
      else x = y \<or> x = PosInf \<or> y = NegInf)"

text \<open>
  \<open>round(x, ndigits)\<close>. Both percentages the code rounds are numpy scalars (a
  \<open>Close\<close> cell read with \<open>iloc\<close> is a \<open>numpy.float64\<close>, and so is every result of
  arithmetic with it), so \<open>round\<close> is numpy's: multiply by \<open>10 ^ ndigits\<close>, round to
  the nearest integer with a tie going to the even one (\<open>rint\<close>, which keeps the sign
  of a result that is zero), and divide by \<open>10 ^ ndigits\<close>, each step in double
  arithmetic. Infinities and NaN come back as they are.
\<close>

fun fl_rint :: "pyfloat \<Rightarrow> pyfloat" where
  "fl_rint (Finite q) =
     (if round_half_even q = 0 then signed_zero (q < 0)
      else Finite (of_int (round_half_even q)))"
| "fl_rint x = x"

definition py_round :: "pyfloat \<Rightarrow> nat \<Rightarrow> pyfloat" where
  "py_round x ndigits =
     fl_div (fl_rint (fl_mul x (Finite (10 ^ ndigits)))) (Finite (10 ^ ndigits))"

section \<open>Strings and outcomes of external calls\<close>

text \<open>
  A string is a list of characters with code points below 256. \<open>str.strip()\<close> removes
  the characters for which \<open>str.isspace\<close> holds; below 256 these are the code points
  9 to 13, 28 to 32, 133 and 160.
\<close>

text \<open>\<open>str.replace('.', '-')\<close> and \<open>str.strip()\<close>.\<close>

definition replace_dot :: "string \<Rightarrow> string" where
  "replace_dot s = map (\<lambda>c. if c = CHR ''.'' then CHR ''-'' else c) s"

definition is_space :: "char \<Rightarrow> bool" where
  "is_space c =
     (let n = of_char c :: nat
      in (9 \<le> n \<and> n \<le> 13) \<or> (28 \<le> n \<and> n \<le> 32) \<or> n = 133 \<or> n = 160)"

definition strip :: "string \<Rightarrow> string" where
  "strip s = rev (dropWhile is_space (rev (dropWhile is_space s)))"

text \<open>
  The outcome of a \<open>try\<close> block around an external call: the call raised, or it gave a
  value. \<open>Closes\<close> is the \<open>Close\<close> column of the frame \<open>stock.history\<close> returned,
  oldest first (empty for an empty frame).
\<close>

datatype 'a attempt = Failed | Got 'a

datatype history = Raised | Closes "pyfloat list"

datatype error = NameError string | DateParseError

section \<open>Universe provider\<close>

text \<open>
  \<open>get_sp500_tickers\<close>. \<open>wiki\<close> is the outcome of method 1 (the \<open>Symbol\<close> column of the
  page's first table); \<open>cache\<close> is \<open>None\<close> when \<open>sp500_tickers.txt\<close> does not exist, else
  the outcome of reading its lines. Method 3 builds the list \<open>fallback_tickers\<close> and
  returns the name \<open>fallback_ickers\<close>, which is bound nowhere: Python raises NameError.
\<close>

definition fallback_tickers :: "string list" where
  "fallback_tickers =
     [''AAPL'', ''MSFT'', ''GOOGL'', ''AMZN'', ''NVDA'', ''META'', ''TSLA'', ''BRK.B'',
      ''UNH'', ''JNJ'', ''XOM'', ''V'', ''PG'', ''JPM'', ''MA'', ''HD'', ''CVX'', ''MRK'',
      ''LLY'', ''ABBV'', ''PEP'', ''AVGO'', ''KO'', ''COST'', ''WMT'', ''MCD'', ''CSCO'',
      ''TMO'', ''ACN'', ''ABT'', ''ADBE'', ''CRM'', ''NFLX'', ''DHR'', ''VZ'', ''NKE'',
      ''TXN'', ''DIS'', ''INTC'', ''CMCSA'', ''PM'', ''UPS'', ''ORCL'', ''AMD'', ''NEE'']"

fun get_sp500_tickers :: "string list attempt \<Rightarrow> string list attempt option \<Rightarrow> error + string list" where
  "get_sp500_tickers (Got symbols) cache = Inr (map replace_dot symbols)"
| "get_sp500_tickers Failed (Some (Got lines)) =
     Inr (map strip (filter (\<lambda>line. strip line \<noteq> []) lines))"
| "get_sp500_tickers Failed cache = Inl (NameError ''fallback_ickers'')"

section \<open>Data model\<close>

text \<open>
  A row of \<open>tracking_list.csv\<close> and of \<open>historical_tracking.csv\<close>. The detector
  writes the first six columns; the last three appear with the first update, and a cell
  that was never written is NaN (no string for \<open>last_updated\<close>). \<open>status\<close> is the
  string of the CSV cell. A file is the list of its rows: \<open>to_csv\<close> writes the
  shortest decimal that identifies a double, negative zero as \<open>-0.0\<close>, and
  \<open>read_csv\<close> is taken to read every cell back as the value that was written.
\<close>

record tracking_row =
  ticker :: string
  date_detected :: string
  detection_price :: pyfloat
  change_pct :: pyfloat
  business_days_tracked :: int
  status :: string
  current_price :: pyfloat
  total_change_pct :: pyfloat
  last_updated :: "string option"

text \<open>A row of \<open>daily_snapshots.csv\<close>.\<close>

record snapshot =
  snap_ticker :: string
  snap_date_detected :: string
  tracking_day :: int
  current_date :: string
  snap_detection_price :: pyfloat
  snap_current_price :: pyfloat
  initial_change_pct :: pyfloat
  cumulative_change_pct :: pyfloat
  snap_status :: string

text \<open>The three files of the data directory; \<open>None\<close> is a file that does not exist.\<close>

record store =
  tracking_file :: "tracking_row list option"
  historical_file :: "tracking_row list option"
  daily_snapshot_file :: "snapshot list option"

section \<open>Event detector\<close>

text \<open>
  The percent change of a price against a base price, as both the detector and the
  updater compute it: \<open>((price - base) / base) * 100\<close>.
\<close>

definition pct_change :: "pyfloat \<Rightarrow> pyfloat \<Rightarrow> pyfloat" where
  "pct_change price base = fl_mul (fl_div (fl_sub price base) base) (Finite 100)"

text \<open>
  The body of the loop of \<open>get_daily_movers\<close> for one ticker: \<open>movers\<close> after the
  iteration. An exception anywhere in the \<open>try\<close> block and a history of fewer than two
  rows leave \<open>movers\<close> as it is. \<open>now\<close> is \<open>datetime.now().strftime('%Y-%m-%d')\<close>.
\<close>

fun scan_ticker :: "pyfloat \<Rightarrow> string \<Rightarrow> tracking_row list \<Rightarrow> string \<Rightarrow> history \<Rightarrow> tracking_row list" where
  "scan_ticker threshold now movers tk Raised = movers"
| "scan_ticker threshold now movers tk (Closes hist) =
     (if length hist < 2 then movers
      else
        let today_close = last hist;
            prev_close = hist ! (length hist - 2);
            change = pct_change today_close prev_close
        in if fl_ge (fl_abs change) threshold
           then movers @
             [\<lparr>ticker = tk, date_detected = now, detection_price = today_close,
               change_pct = py_round change 2, business_days_tracked = 0,
               status = ''active'', current_price = NaN, total_change_pct = NaN,
               last_updated = None\<rparr>]
           else movers)"

text \<open>
  The loop over \<open>enumerate(tickers)\<close>; \<open>fetch i\<close> is the outcome of the call
  \<open>stock.history(period="5d")\<close> made in iteration \<open>i\<close>.
\<close>

fun scan_movers :: "pyfloat \<Rightarrow> string \<Rightarrow> (nat \<Rightarrow> history) \<Rightarrow> nat \<Rightarrow> string list \<Rightarrow> tracking_row list \<Rightarrow> tracking_row list" where
  "scan_movers threshold now fetch i [] movers = movers"
| "scan_movers threshold now fetch i (tk # rest) movers =
     scan_movers threshold now fetch (Suc i) rest (scan_ticker threshold now movers tk (fetch i))"

text \<open>
  \<open>get_daily_movers\<close>: the ticker list is fetched outside the \<open>try\<close> block, so an
  exception of \<open>get_sp500_tickers\<close> leaves the function.
\<close>

definition get_daily_movers :: "pyfloat \<Rightarrow> string \<Rightarrow> string list attempt \<Rightarrow> string list attempt option \<Rightarrow> (nat \<Rightarrow> history) \<Rightarrow> error + tracking_row list" where
  "get_daily_movers threshold now wiki cache fetch =
     (case get_sp500_tickers wiki cache of
        Inl e \<Rightarrow> Inl e
      | Inr tickers \<Rightarrow> Inr (scan_movers threshold now fetch 0 tickers []))"

section \<open>Tracking ledger: insertion\<close>

text \<open>
  \<open>update_tracking_list\<close>: the new movers are appended to the ledger with no
  deduplication, and the file is written unless the frame is empty.
\<close>

definition update_tracking_list :: "tracking_row list \<Rightarrow> store \<Rightarrow> store \<times> tracking_row list" where
  "update_tracking_list new_movers s =
     (let tracking_df = (case tracking_file s of None \<Rightarrow> [] | Some df \<Rightarrow> df);
          tracking_df = (if new_movers \<noteq> [] then tracking_df @ new_movers else tracking_df)
      in (if tracking_df \<noteq> [] then s\<lparr>tracking_file := Some tracking_df\<rparr> else s, tracking_df))"

section \<open>Daily updater\<close>

text \<open>
  The dict \<open>prices\<close> of \<open>get_current_prices\<close>: a ticker is absent, or bound to
  \<open>None\<close> (its fetch raised), or bound to a price. \<open>fetch i\<close> is the outcome of the call
  \<open>stock.history(period="1d")\<close> made in iteration \<open>i\<close>; an empty frame binds nothing.
  \<open>dict_get\<close> is \<open>prices.get(ticker)\<close>.
\<close>

type_synonym prices = "string \<Rightarrow> pyfloat option option"

fun get_current_prices :: "(nat \<Rightarrow> history) \<Rightarrow> nat \<Rightarrow> string list \<Rightarrow> prices \<Rightarrow> prices" where
  "get_current_prices fetch i [] prices = prices"
| "get_current_prices fetch i (tk # rest) prices =
     get_current_prices fetch (Suc i) rest
       (case fetch i of
          Raised \<Rightarrow> prices(tk \<mapsto> None)
        | Closes hist \<Rightarrow> if hist \<noteq> [] then prices(tk \<mapsto> Some (last hist)) else prices)"

definition dict_get :: "prices \<Rightarrow> string \<Rightarrow> pyfloat option" where
  "dict_get prices tk = (case prices tk of None \<Rightarrow> None | Some v \<Rightarrow> v)"

text \<open>
  \<open>active_stocks\<close> is the frame \<open>tracking_df[tracking_df['status'] == 'active']\<close> as
  \<open>iterrows\<close> walks it: the index label of each row (its position in \<open>tracking_df\<close>,
  which \<open>read_csv\<close> numbers from 0) and a copy of the row.
\<close>

definition active_stocks :: "tracking_row list \<Rightarrow> (nat \<times> tracking_row) list" where
  "active_stocks tracking_df =
     filter (\<lambda>(idx, row). status row = ''active'') (enumerate 0 tracking_df)"

definition current_prices_of :: "(nat \<Rightarrow> history) \<Rightarrow> tracking_row list \<Rightarrow> prices" where
  "current_prices_of fetch tracking_df =
     get_current_prices fetch 0 (map (\<lambda>(idx, row). ticker row) (active_stocks tracking_df)) Map.empty"

text \<open>
  One iteration of the loop of \<open>track_existing_stocks\<close>, on the pair of the frame and
  the list \<open>daily_updates\<close>. \<open>row\<close> is the copy taken before the loop; each
  \<open>tracking_df.loc[idx, col] = v\<close> writes one cell of the row at \<open>idx\<close>, which is a
  position of the frame (a label outside it cannot come out of \<open>iterrows\<close>), and the
  snapshot reads \<open>status\<close> back from the frame.
\<close>

fun track_row :: "string \<Rightarrow> prices \<Rightarrow> tracking_row list \<times> snapshot list \<Rightarrow> nat \<times> tracking_row \<Rightarrow> tracking_row list \<times> snapshot list" where
  "track_row now current_prices (tracking_df, daily_updates) (idx, row) =
     (case dict_get current_prices (ticker row) of
        None \<Rightarrow> (tracking_df, daily_updates)
      | Some price \<Rightarrow>
          let days_tracked = business_days_tracked row + 1;
              price_change = pct_change price (detection_price row);
              df1 = tracking_df[idx := (tracking_df ! idx)\<lparr>business_days_tracked := days_tracked\<rparr>];
              df2 = df1[idx := (df1 ! idx)\<lparr>current_price := price\<rparr>];
              df3 = df2[idx := (df2 ! idx)\<lparr>total_change_pct := py_round price_change 2\<rparr>];
              df4 = df3[idx := (df3 ! idx)\<lparr>last_updated := Some now\<rparr>];
              df5 = (if 10 \<le> days_tracked
                     then df4[idx := (df4 ! idx)\<lparr>status := ''completed''\<rparr>] else df4)
          in (df5,
              daily_updates @
                [\<lparr>snap_ticker = ticker row, snap_date_detected = date_detected row,
                  tracking_day = days_tracked, current_date = now,
                  snap_detection_price = detection_price row, snap_current_price = price,
                  initial_change_pct = change_pct row,
                  cumulative_change_pct = py_round price_change 2,
                  snap_status = status (df5 ! idx)\<rparr>]))"

text \<open>
  \<open>track_existing_stocks\<close>: the store after the call and the frame of the snapshots it
  returns. Nothing is written when the ledger file is missing or has no active row.
\<close>

definition track_existing_stocks :: "string \<Rightarrow> (nat \<Rightarrow> history) \<Rightarrow> store \<Rightarrow> store \<times> snapshot list" where
  "track_existing_stocks now fetch s =
     (case tracking_file s of
        None \<Rightarrow> (s, [])
      | Some tracking_df \<Rightarrow>
          if active_stocks tracking_df = [] then (s, [])
          else
            let current_prices = current_prices_of fetch tracking_df;
                (tracking_df', daily_updates) =
                   foldl (track_row now current_prices) (tracking_df, []) (active_stocks tracking_df)
            in (s\<lparr>tracking_file := Some tracking_df',
                   daily_snapshot_file :=
                     (if daily_updates \<noteq> []
                      then Some (case daily_snapshot_file s of
                                   None \<Rightarrow> daily_updates
                                 | Some old \<Rightarrow> old @ daily_updates)
                      else daily_snapshot_file s)\<rparr>,
                daily_updates))"

section \<open>Archiver\<close>

definition archive_completed_stocks :: "store \<Rightarrow> store" where
  "archive_completed_stocks s =
     (case tracking_file s of
        None \<Rightarrow> s
      | Some tracking_df \<Rightarrow>
          let completed = filter (\<lambda>row. status row = ''completed'') tracking_df
          in if completed = [] then s
             else s\<lparr>historical_file :=
                       Some (case historical_file s of
                               None \<Rightarrow> completed
                             | Some old \<Rightarrow> old @ completed),
                     tracking_file := Some (filter (\<lambda>row. status row = ''active'') tracking_df)\<rparr>)"

section \<open>The daily run\<close>

text \<open>
  \<open>run_daily_update\<close>: detector, insertion, updater, archiver. \<open>fetch5d\<close> and
  \<open>fetch1d\<close> are the outcomes of the history calls of the detector and of the updater.
\<close>

definition run_daily_update :: "pyfloat \<Rightarrow> string \<Rightarrow> string list attempt \<Rightarrow> string list attempt option \<Rightarrow> (nat \<Rightarrow> history) \<Rightarrow> (nat \<Rightarrow> history) \<Rightarrow> store \<Rightarrow> error + store \<times> tracking_row list \<times> snapshot list" where
  "run_daily_update threshold now wiki cache fetch5d fetch1d s =
     (case get_daily_movers threshold now wiki cache fetch5d of
        Inl e \<Rightarrow> Inl e
      | Inr new_movers \<Rightarrow>
          let s1 = fst (update_tracking_list new_movers s);
              (s2, daily_updates) = track_existing_stocks now fetch1d s1;
              s3 = archive_completed_stocks s2
          in Inr (s3, new_movers, daily_updates))"

section \<open>Feature extractor\<close>

text \<open>
  A row of the frame \<open>get_ml_ready_dataset\<close> returns: the snapshot and the five columns
  added to it. \<open>to_datetime\<close> stands for \<open>pd.to_datetime\<close> on one cell: the day number of
  the date, or \<open>None\<close> where pandas raises. The column operations of pandas act on each
  row by itself; a float division of columns raises nothing and gives an infinity or NaN
  where the divisor is 0.
\<close>

record feature_row = snapshot +
  days_since_detection :: int
  initial_move_direction :: string
  initial_move_magnitude :: pyfloat
  momentum_continuation :: pyfloat
  continued_direction :: bool

definition parse_dates :: "(string \<Rightarrow> int option) \<Rightarrow> snapshot \<Rightarrow> (int \<times> int) option" where
  "parse_dates to_datetime row =
     (case to_datetime (snap_date_detected row) of
        None \<Rightarrow> None
      | Some detected \<Rightarrow>
          (case to_datetime (current_date row) of
             None \<Rightarrow> None
           | Some current \<Rightarrow> Some (detected, current)))"

definition add_features :: "snapshot \<Rightarrow> int \<times> int \<Rightarrow> feature_row" where
  "add_features row dates =
     snapshot.extend row
       \<lparr>days_since_detection = snd dates - fst dates,
        initial_move_direction =
          (if fl_less (Finite 0) (initial_change_pct row) then ''gain'' else ''loss''),
        initial_move_magnitude = fl_abs (initial_change_pct row),
        momentum_continuation = fl_div (cumulative_change_pct row) (initial_change_pct row),
        continued_direction =
          ((fl_less (Finite 0) (initial_change_pct row)
              \<and> fl_less (Finite 0) (cumulative_change_pct row))
           \<or> (fl_less (initial_change_pct row) (Finite 0)
              \<and> fl_less (cumulative_change_pct row) (Finite 0)))\<rparr>"

definition get_ml_ready_dataset :: "(string \<Rightarrow> int option) \<Rightarrow> store \<Rightarrow> error + feature_row list" where
  "get_ml_ready_dataset to_datetime s =
     (case daily_snapshot_file s of
        None \<Rightarrow> Inr []
      | Some df \<Rightarrow>
          (case those (map (parse_dates to_datetime) df) of
             None \<Rightarrow> Inl DateParseError
           | Some dates \<Rightarrow> Inr (map2 add_features df dates)))"

section \<open>Runs of the updater and the snapshots of an event\<close>

text \<open>
  The row of the ledger after one run of the updater, and the snapshots the run appends
  for it, as functions of the row alone: what the iteration of \<open>track_row\<close> for the
  row does to it (lemma \<open>foldl_track_row\<close> below). A row that is not active is not
  visited.
\<close>

definition step_row :: "string \<Rightarrow> prices \<Rightarrow> tracking_row \<Rightarrow> tracking_row" where
  "step_row now current_prices row =
     (if status row = ''active''
      then hd (fst (track_row now current_prices ([row], []) (0, row)))
      else row)"

definition step_snapshots :: "string \<Rightarrow> prices \<Rightarrow> tracking_row \<Rightarrow> snapshot list" where
  "step_snapshots now current_prices row =
     (if status row = ''active''
      then snd (track_row now current_prices ([row], []) (0, row))
      else [])"

text \<open>
  The snapshots that the run of the updater on store \<open>s\<close> appends for the row at
  position \<open>idx\<close> of the ledger.
\<close>

definition appended_for :: "string \<Rightarrow> (nat \<Rightarrow> history) \<Rightarrow> store \<Rightarrow> nat \<Rightarrow> snapshot list" where
  "appended_for now fetch s idx =
     (case tracking_file s of
        None \<Rightarrow> []
      | Some tracking_df \<Rightarrow>
          if idx < length tracking_df
          then step_snapshots now (current_prices_of fetch tracking_df) (tracking_df ! idx)
          else [])"

text \<open>
  A sequence of runs of the updater, each with its date and the outcomes of its price
  fetches, and the snapshots the sequence appends for the row at position \<open>idx\<close>.
\<close>

fun updater_runs :: "(string \<times> (nat \<Rightarrow> history)) list \<Rightarrow> store \<Rightarrow> store" where
  "updater_runs [] s = s"
| "updater_runs ((now, fetch) # runs) s =
     updater_runs runs (fst (track_existing_stocks now fetch s))"

fun snapshots_of_event :: "nat \<Rightarrow> (string \<times> (nat \<Rightarrow> history)) list \<Rightarrow> store \<Rightarrow> snapshot list" where
  "snapshots_of_event idx [] s = []"
| "snapshots_of_event idx ((now, fetch) # runs) s =
     appended_for now fetch s idx
       @ snapshots_of_event idx runs (fst (track_existing_stocks now fetch s))"

text \<open>
  The rows the system produces: an active event has fewer than 10 observations, a
  completed one exactly 10. The detector creates events with 0 observations and status
  \<open>active\<close>.
\<close>

definition in_window :: "tracking_row \<Rightarrow> bool" where
  "in_window row =
     ((status row = ''active'' \<and> 0 \<le> business_days_tracked row \<and> business_days_tracked row < 10)
      \<or> (status row = ''completed'' \<and> business_days_tracked row = 10))"

text \<open>Every row of the ledger and of the historical file is in its window.\<close>

definition ledger_in_window :: "store \<Rightarrow> bool" where
  "ledger_in_window s =
     ((case tracking_file s of None \<Rightarrow> True | Some df \<Rightarrow> list_all in_window df)
      \<and> (case historical_file s of None \<Rightarrow> True | Some df \<Rightarrow> list_all in_window df))"

text \<open>The rows of \<open>daily_snapshots.csv\<close>, none when the file does not exist.\<close>

definition snapshot_log :: "store \<Rightarrow> snapshot list" where
  "snapshot_log s = (case daily_snapshot_file s of None \<Rightarrow> [] | Some rows \<Rightarrow> rows)"

section \<open>Rounding\<close>

lemma round_half_even_nearest:
  "\<bar>of_int (round_half_even q) - q\<bar> \<le> 1 / 2"
proof -
  have "of_int \<lfloor>q\<rfloor> \<le> q" "q < of_int \<lfloor>q\<rfloor> + 1"
    by linarith+
  then show ?thesis
    by (auto simp: round_half_even_def Let_def abs_le_iff)
qed

section \<open>Comparisons and division by zero\<close>

lemma fl_less_simps [simp]:
  "fl_less (Finite a) (Finite b) = (a < b)"
  "fl_less NegZero (Finite b) = (0 < b)"
  "fl_less (Finite a) NegZero = (a < 0)"
  "fl_less NegZero NegZero = False"
  "fl_less NaN y = False"
  "fl_less x NaN = False"
  "fl_less PosInf y = False"
  "fl_less x NegInf = False"
  "fl_less (Finite a) PosInf = True"
  "fl_less NegZero PosInf = True"
  "fl_less NegInf PosInf = True"
  "fl_less NegInf (Finite b) = True"
  "fl_less NegInf NegZero = True"
  by (auto simp: fl_less_def)

lemma fl_ge_simps [simp]:
  "fl_ge (Finite a) (Finite b) = (b \<le> a)"
  "fl_ge NegZero (Finite b) = (b \<le> 0)"
  "fl_ge (Finite a) NegZero = (0 \<le> a)"
  "fl_ge NegZero NegZero = True"
  "fl_ge NaN y = False"
  "fl_ge x NaN = False"
  "fl_ge PosInf (Finite b) = True"
  "fl_ge PosInf NegZero = True"
  "fl_ge PosInf PosInf = True"
  "fl_ge PosInf NegInf = True"
  "fl_ge NegInf NegInf = True"
  "fl_ge (Finite a) NegInf = True"
  "fl_ge NegZero NegInf = True"
  "fl_ge NegInf (Finite b) = False"
  "fl_ge NegInf NegZero = False"
  "fl_ge NegInf PosInf = False"
  "fl_ge (Finite a) PosInf = False"
  "fl_ge NegZero PosInf = False"
  by (auto simp: fl_ge_def)

text \<open>
  Division by a zero: NaN when the dividend is a zero or NaN, else an infinity whose
  sign is negative exactly when one of dividend and divisor is negative.
\<close>

lemma fl_div_zero:
  assumes "y = Finite 0 \<or> y = NegZero"
  shows "fl_div x y =
           (if x = NaN \<or> x = Finite 0 \<or> x = NegZero then NaN
            else if negative x \<noteq> negative y then NegInf else PosInf)"
  using assms by (cases x) (auto simp: fl_div_def signed_inf_def)

text \<open>
  The percent changes of the examples, in double arithmetic. From 160 to 183 the
  quotient \<open>23 / 160\<close> is not a double, the product with 100 is
  \<open>14.374999999999998\<close>, and \<open>round\<close> gives \<open>14.37\<close> where the exact value
  \<open>14.375\<close> would give \<open>14.38\<close>. From 100 to 129 the change is
  \<open>28.999999999999996\<close>, below 29.
\<close>

lemma pct_change_100_110:
  "pct_change (Finite 110) (Finite 100) = Finite 10"
  by code_simp

lemma round_pct_change_100_110:
  "py_round (pct_change (Finite 110) (Finite 100)) 2 = Finite 10"
  by code_simp

lemma pct_change_100_106:
  "pct_change (Finite 106) (Finite 100) = Finite 6"
  by code_simp

lemma round_pct_change_100_106:
  "py_round (pct_change (Finite 106) (Finite 100)) 2 = Finite 6"
  by code_simp

lemma pct_change_100_104:
  "pct_change (Finite 104) (Finite 100) = Finite 4"
  by code_simp

lemma round_pct_change_100_104:
  "py_round (pct_change (Finite 104) (Finite 100)) 2 = Finite 4"
  by code_simp

lemma pct_change_160_183:
  "pct_change (Finite 183) (Finite 160) = Finite (8092405580431359 / 562949953421312)"
  by code_simp

lemma round_pct_change_160_183:
  "py_round (pct_change (Finite 183) (Finite 160)) 2 = round_double (1437 / 100)"
  by code_simp

lemma pct_change_100_129:
  "pct_change (Finite 129) (Finite 100) = Finite (8162774324609023 / 281474976710656)"
  by code_simp

lemma pct_change_100_90:
  "pct_change (Finite 90) (Finite 100) = Finite (- 10)"
  by code_simp

lemma round_pct_change_100_90:
  "py_round (pct_change (Finite 90) (Finite 100)) 2 = Finite (- 10)"
  by code_simp

lemma pct_change_50_51:
  "pct_change (Finite 51) (Finite 50) = Finite 2"
  by code_simp

text \<open>
  The double \<open>3.15\<close> lies below the decimal, and the change from 3.00 to it is
  \<open>4.9999999999999964\<close>, below 5. The double \<open>14.37\<close>.
\<close>

lemma double_3_15:
  "round_double (315 / 100) = Finite (7093169413108531 / 2251799813685248)"
  by code_simp

lemma pct_change_3_00_3_15:
  "pct_change (round_double (315 / 100)) (Finite 3) = Finite (1407374883553279 / 281474976710656)"
  by code_simp

lemma double_14_37:
  "round_double (1437 / 100) = Finite (8089590830664253 / 562949953421312)"
  by code_simp

text \<open>
  A negative change too small for two places rounds to the negative zero, and a
  positive number divided by it is the negative infinity.
\<close>

lemma round_to_negative_zero:
  "py_round (round_double (- 477 / 10000000)) 2 = NegZero"
  by code_simp

lemma divide_by_negative_zero:
  "fl_div (Finite 100) NegZero = NegInf"
  by code_simp

lemma quotient_3_6:
  "fl_div (Finite 3) (Finite 6) = Finite (1 / 2)"
  by code_simp

lemma threshold_zero_1000000_999999:
  "fl_ge (fl_abs (pct_change (Finite 999999) (Finite 1000000))) (Finite 0)"
  by code_simp

lemma round_pct_change_1000000_999999:
  "py_round (pct_change (Finite 999999) (Finite 1000000)) 2 = NegZero"
  by code_simp

section \<open>The loop of the updater\<close>

text \<open>
  The five writes of one iteration amount to one update of the row at \<open>idx\<close>; the loop
  over the active rows visits each position once, while the row there is still the copy
  taken before the loop. So a run maps \<open>step_row\<close> over the ledger and appends the
  snapshots of \<open>step_snapshots\<close>, row by row.
\<close>

lemma track_row_eq:
  "idx < length df \<Longrightarrow>
   track_row now cp (df, snaps) (idx, row) =
     (case dict_get cp (ticker row) of
        None \<Rightarrow> (df, snaps)
      | Some price \<Rightarrow>
          (df[idx := (df ! idx)\<lparr>business_days_tracked := business_days_tracked row + 1,
                 current_price := price,
                 total_change_pct := py_round (pct_change price (detection_price row)) 2,
                 last_updated := Some now,
                 status := (if 10 \<le> business_days_tracked row + 1 then ''completed'' else status (df ! idx))\<rparr>],
           snaps @
             [\<lparr>snap_ticker = ticker row, snap_date_detected = date_detected row,
               tracking_day = business_days_tracked row + 1, current_date = now,
               snap_detection_price = detection_price row, snap_current_price = price,
               initial_change_pct = change_pct row,
               cumulative_change_pct = py_round (pct_change price (detection_price row)) 2,
               snap_status = (if 10 \<le> business_days_tracked row + 1 then ''completed'' else status (df ! idx))\<rparr>]))"
  by (simp add: Let_def split: option.splits)

lemma step_row_eq:
  "step_row now cp row =
     (if status row = ''active''
      then (case dict_get cp (ticker row) of
              None \<Rightarrow> row
            | Some price \<Rightarrow>
                row\<lparr>business_days_tracked := business_days_tracked row + 1,
                    current_price := price,
                    total_change_pct := py_round (pct_change price (detection_price row)) 2,
                    last_updated := Some now,
                    status := (if 10 \<le> business_days_tracked row + 1 then ''completed'' else ''active'')\<rparr>)
      else row)"
  by (simp add: step_row_def track_row_eq del: track_row.simps split: option.splits)

lemma step_snapshots_eq:
  "step_snapshots now cp row =
     (if status row = ''active''
      then (case dict_get cp (ticker row) of
              None \<Rightarrow> []
            | Some price \<Rightarrow>
             [\<lparr>snap_ticker = ticker row, snap_date_detected = date_detected row,
               tracking_day = business_days_tracked row + 1, current_date = now,
               snap_detection_price = detection_price row, snap_current_price = price,
               initial_change_pct = change_pct row,
               cumulative_change_pct = py_round (pct_change price (detection_price row)) 2,
               snap_status = (if 10 \<le> business_days_tracked row + 1 then ''completed'' else ''active'')\<rparr>])
      else [])"
  by (simp add: step_snapshots_def track_row_eq del: track_row.simps split: option.splits)

lemma track_row_step:
  assumes "idx < length df" "df ! idx = row" "status row = ''active''"
  shows "track_row now cp (df, snaps) (idx, row) =
           (df[idx := step_row now cp row], snaps @ step_snapshots now cp row)"
  using assms by (auto simp: track_row_eq step_row_eq step_snapshots_eq simp del: track_row.simps split: option.splits)

lemma foldl_track_row:
  assumes "distinct (map fst ps)"
    and "\<forall>(idx, row) \<in> set ps. idx < length df \<and> df ! idx = row \<and> status row = ''active''"
  shows "foldl (track_row now cp) (df, snaps) ps =
           (map (\<lambda>(i, row). if i \<in> fst ` set ps then step_row now cp row else row) (enumerate 0 df),
            snaps @ concat (map (\<lambda>(idx, row). step_snapshots now cp row) ps))"
  using assms
proof (induction ps arbitrary: df snaps)
  case Nil
  show ?case by (auto intro!: nth_equalityI simp: nth_enumerate_eq)
next
  case (Cons p ps)
  obtain idx row where p: "p = (idx, row)" by (cases p)
  from Cons.prems p have idx: "idx < length df" "df ! idx = row" "status row = ''active''"
    and notin: "idx \<notin> fst ` set ps" and dist: "distinct (map fst ps)"
    by auto
  let ?df1 = "df[idx := step_row now cp row]"
  have rest: "\<forall>(j, r) \<in> set ps. j < length ?df1 \<and> ?df1 ! j = r \<and> status r = ''active''"
  proof (clarify)
    fix j r assume jr: "(j, r) \<in> set ps"
    with Cons.prems(2) have "j < length df" "df ! j = r" "status r = ''active''" by auto
    moreover from jr notin have "j \<noteq> idx" by force
    ultimately show "j < length ?df1 \<and> ?df1 ! j = r \<and> status r = ''active''" by simp
  qed
  have "foldl (track_row now cp) (df, snaps) (p # ps) =
          foldl (track_row now cp) (?df1, snaps @ step_snapshots now cp row) ps"
    using idx by (simp add: p track_row_step del: track_row.simps)
  also have "\<dots> = (map (\<lambda>(i, row). if i \<in> fst ` set ps then step_row now cp row else row) (enumerate 0 ?df1),
            (snaps @ step_snapshots now cp row) @ concat (map (\<lambda>(idx, row). step_snapshots now cp row) ps))"
    by (rule Cons.IH [OF dist rest])
  also have "map (\<lambda>(i, row). if i \<in> fst ` set ps then step_row now cp row else row) (enumerate 0 ?df1)
      = map (\<lambda>(i, row). if i \<in> fst ` set (p # ps) then step_row now cp row else row) (enumerate 0 df)"
    using idx notin by (intro nth_equalityI) (auto simp: nth_enumerate_eq nth_list_update p)
  finally show ?case by (simp add: p)
qed


lemma active_stocks_props:
  "distinct (map fst (active_stocks df))"
  "\<forall>(idx, row) \<in> set (active_stocks df). idx < length df \<and> df ! idx = row \<and> status row = ''active''"
  "fst ` set (active_stocks df) = {i. i < length df \<and> status (df ! i) = ''active''}"
  by (auto simp: active_stocks_def distinct_map_filter in_set_enumerate_eq image_iff)

lemma step_inactive:
  "status row \<noteq> ''active'' \<Longrightarrow> step_row now cp row = row"
  "status row \<noteq> ''active'' \<Longrightarrow> step_snapshots now cp row = []"
  by (simp_all add: step_row_def step_snapshots_def)

lemma concat_map_active:
  "concat (map (\<lambda>(idx, row). step_snapshots now cp row) (filter (\<lambda>(idx, row). status row = ''active'') ps))
     = concat (map (\<lambda>(idx, row). step_snapshots now cp row) ps)"
  by (induction ps) (auto simp: step_inactive)

lemma map_enumerate_snd: "map (\<lambda>(i, x). f x) (enumerate n xs) = map f xs"
  by (induction xs arbitrary: n) simp_all

lemma loop_result:
  "foldl (track_row now cp) (df, []) (active_stocks df) =
     (map (step_row now cp) df, concat (map (step_snapshots now cp) df))"
proof -
  have rows: "map (\<lambda>(i, row). if i \<in> fst ` set (active_stocks df) then step_row now cp row else row) (enumerate 0 df)
                = map (step_row now cp) df"
    by (intro nth_equalityI) (auto simp: nth_enumerate_eq active_stocks_props(3) step_inactive)
  have snaps: "concat (map (\<lambda>(idx, row). step_snapshots now cp row) (active_stocks df))
                = concat (map (step_snapshots now cp) df)"
    by (simp add: active_stocks_def concat_map_active map_enumerate_snd)
  show ?thesis
    using foldl_track_row [where ps = "active_stocks df" and df = df and now = now and cp = cp
        and snaps = "[]", OF active_stocks_props(1) active_stocks_props(2)]
    by (simp add: rows snaps)
qed

lemma no_active_rows:
  assumes "active_stocks df = []"
  shows "map (step_row now cp) df = df" "concat (map (step_snapshots now cp) df) = []"
proof -
  have "\<forall>i < length df. status (df ! i) \<noteq> ''active''"
    using active_stocks_props(3) [of df] assms by auto
  then have "\<forall>row \<in> set df. status row \<noteq> ''active''"
    by (auto simp: in_set_conv_nth)
  then show "map (step_row now cp) df = df" "concat (map (step_snapshots now cp) df) = []"
    by (auto simp: step_inactive map_idI)
qed

lemma track_existing_stocks_eq:
  assumes "tracking_file s = Some df"
  shows "track_existing_stocks now fetch s =
     (s\<lparr>tracking_file := Some (map (step_row now (current_prices_of fetch df)) df),
        daily_snapshot_file :=
          (if concat (map (step_snapshots now (current_prices_of fetch df)) df) \<noteq> []
           then Some (case daily_snapshot_file s of
                        None \<Rightarrow> concat (map (step_snapshots now (current_prices_of fetch df)) df)
                      | Some old \<Rightarrow> old @ concat (map (step_snapshots now (current_prices_of fetch df)) df))
           else daily_snapshot_file s)\<rparr>,
      concat (map (step_snapshots now (current_prices_of fetch df)) df))"
proof (cases "active_stocks df = []")
  case True
  then show ?thesis
    using assms by (simp add: track_existing_stocks_def no_active_rows)
next
  case False
  then show ?thesis
    using assms by (simp add: track_existing_stocks_def loop_result Let_def)
qed

lemma daily_updates_concat:
  assumes "tracking_file s = Some df"
  shows "snd (track_existing_stocks now fetch s) = concat (map (appended_for now fetch s) [0..<length df])"
proof -
  have "map (appended_for now fetch s) [0..<length df]
          = map (\<lambda>i. step_snapshots now (current_prices_of fetch df) (df ! i)) [0..<length df]"
    using assms by (simp add: appended_for_def)
  also have "\<dots> = map (step_snapshots now (current_prices_of fetch df)) df"
    by (intro nth_equalityI) simp_all
  finally show ?thesis
    using assms by (simp add: track_existing_stocks_eq)
qed

lemma ledger_after_run:
  assumes "tracking_file s = Some df"
  shows "tracking_file (fst (track_existing_stocks now fetch s))
           = Some (map (step_row now (current_prices_of fetch df)) df)"
  using assms by (simp add: track_existing_stocks_eq)

section \<open>The loop of the detector\<close>

text \<open>
  An iteration appends to \<open>movers\<close> and reads nothing of it, so the result of the scan
  is the concatenation of what each ticker contributes by itself.
\<close>

lemma scan_ticker_acc:
  "scan_ticker threshold now movers tk h = movers @ scan_ticker threshold now [] tk h"
  by (cases h) (simp_all add: Let_def)

lemma scan_movers_acc:
  "scan_movers threshold now fetch i tickers movers
     = movers @ scan_movers threshold now fetch i tickers []"
proof (induction tickers arbitrary: i movers)
  case Nil
  then show ?case by simp
next
  case (Cons tk rest)
  show ?case
    using Cons.IH [of "Suc i" "scan_ticker threshold now movers tk (fetch i)"]
          Cons.IH [of "Suc i" "scan_ticker threshold now [] tk (fetch i)"]
          scan_ticker_acc [of threshold now movers tk "fetch i"]
    by simp
qed

lemma scan_movers_append:
  "scan_movers threshold now fetch i (xs @ ys) movers
     = scan_movers threshold now fetch (i + length xs) ys
         (scan_movers threshold now fetch i xs movers)"
  by (induction xs arbitrary: i movers) simp_all

lemma scan_movers_split:
  assumes "i < length tickers"
  shows "scan_movers threshold now fetch 0 tickers []
           = scan_movers threshold now fetch 0 (take i tickers) []
             @ scan_ticker threshold now [] (tickers ! i) (fetch i)
             @ scan_movers threshold now fetch (Suc i) (drop (Suc i) tickers) []"
proof -
  have t: "tickers = take i tickers @ (tickers ! i # drop (Suc i) tickers)"
    using assms by (simp add: id_take_nth_drop)
  have len: "length (take i tickers) = i" using assms by simp
  let ?before = "scan_movers threshold now fetch 0 (take i tickers) []"
  have "scan_movers threshold now fetch 0 tickers []
          = scan_movers threshold now fetch 0 (take i tickers @ (tickers ! i # drop (Suc i) tickers)) []"
    using t by simp
  also have "\<dots> = scan_movers threshold now fetch i (tickers ! i # drop (Suc i) tickers) ?before"
    by (simp only: scan_movers_append len add_0)
  also have "\<dots> = scan_movers threshold now fetch (Suc i) (drop (Suc i) tickers)
                      (scan_ticker threshold now ?before (tickers ! i) (fetch i))"
    by simp
  also have "\<dots> = scan_ticker threshold now ?before (tickers ! i) (fetch i)
                      @ scan_movers threshold now fetch (Suc i) (drop (Suc i) tickers) []"
    by (rule scan_movers_acc)
  also have "scan_ticker threshold now ?before (tickers ! i) (fetch i)
               = ?before @ scan_ticker threshold now [] (tickers ! i) (fetch i)"
    by (rule scan_ticker_acc)
  finally show ?thesis by simp
qed

section \<open>The price map, and sequences of runs\<close>

text \<open>
  When \<open>prices.get\<close> gives \<open>None\<close> or a price, in terms of the outcomes of the
  fetches; what one run does to a row; and a relation between a row and the same row after
  any number of runs.
\<close>

lemma get_current_prices_unavailable:
  assumes "dict_get prices tk = None"
    and "\<forall>j < length tks. tks ! j = tk \<longrightarrow> fetch (i + j) = Raised \<or> fetch (i + j) = Closes []"
  shows "dict_get (get_current_prices fetch i tks prices) tk = None"
  using assms
proof (induction tks arbitrary: i prices)
  case Nil
  then show ?case by simp
next
  case (Cons t rest)
  let ?p = "(case fetch i of Raised \<Rightarrow> prices(t \<mapsto> None)
             | Closes hist \<Rightarrow> if hist \<noteq> [] then prices(t \<mapsto> Some (last hist)) else prices)"
  have here: "t = tk \<longrightarrow> fetch i = Raised \<or> fetch i = Closes []"
    using Cons.prems(2) by force
  have p: "dict_get ?p tk = None"
    using Cons.prems(1) here by (auto simp: dict_get_def split: history.splits)
  have rest: "\<forall>j < length rest. rest ! j = tk \<longrightarrow> fetch (Suc i + j) = Raised \<or> fetch (Suc i + j) = Closes []"
    using Cons.prems(2) by force
  show ?case
    using Cons.IH [OF p rest] by simp
qed

lemma get_current_prices_other:
  "tk \<notin> set tks \<Longrightarrow> get_current_prices fetch i tks prices tk = prices tk"
  by (induction tks arbitrary: i prices) (auto split: history.splits)

lemma get_current_prices_available:
  assumes "tk \<notin> set post" and "fetch (i + length pre) = Closes hist" and "hist \<noteq> []"
  shows "dict_get (get_current_prices fetch i (pre @ tk # post) prices) tk = Some (last hist)"
  using assms
proof (induction pre arbitrary: i prices)
  case Nil
  then show ?case by (simp add: dict_get_def get_current_prices_other)
next
  case (Cons t pre)
  from Cons.prems have "fetch (Suc i + length pre) = Closes hist" by simp
  from Cons.IH [OF Cons.prems(1) this Cons.prems(3)] show ?case by simp
qed

lemma step_row_skipped:
  "status row = ''completed'' \<Longrightarrow> step_row now cp row = row"
  "status row = ''completed'' \<Longrightarrow> step_snapshots now cp row = []"
  "dict_get cp (ticker row) = None \<Longrightarrow> step_row now cp row = row"
  "dict_get cp (ticker row) = None \<Longrightarrow> step_snapshots now cp row = []"
  by (simp_all add: step_row_eq step_snapshots_eq)

lemma step_row_frame:
  "(step_row now cp row)\<lparr>business_days_tracked := business_days_tracked row,
      current_price := current_price row, total_change_pct := total_change_pct row,
      last_updated := last_updated row, status := status row\<rparr> = row"
  by (simp add: step_row_eq split: option.splits)

lemma step_row_window:
  assumes "in_window row"
  shows "in_window (step_row now cp row)"
    and "business_days_tracked row \<le> business_days_tracked (step_row now cp row)"
    and "business_days_tracked (step_row now cp row) \<le> business_days_tracked row + 1"
  using assms by (auto simp: in_window_def step_row_eq split: option.splits)

lemma updater_runs_snoc:
  "updater_runs (runs @ [(now, fetch)]) s = fst (track_existing_stocks now fetch (updater_runs runs s))"
  by (induction runs arbitrary: s) auto

lemma updater_runs_rel:
  assumes ledger: "tracking_file s = Some df"
    and refl: "\<And>row. R row row"
    and step: "\<And>r1 r2 now cp. R r1 r2 \<Longrightarrow> R r1 (step_row now cp r2)"
  shows "\<exists>dfn. tracking_file (updater_runs runs s) = Some dfn \<and> length dfn = length df
           \<and> (\<forall>i < length df. R (df ! i) (dfn ! i))"
proof (induction runs rule: rev_induct)
  case Nil
  show ?case using ledger refl by simp
next
  case (snoc run runs)
  obtain now fetch where run: "run = (now, fetch)" by (cases run)
  from snoc.IH obtain dfn where dfn: "tracking_file (updater_runs runs s) = Some dfn"
    "length dfn = length df" "\<forall>i < length df. R (df ! i) (dfn ! i)" by blast
  have "tracking_file (updater_runs (runs @ [run]) s)
          = Some (map (step_row now (current_prices_of fetch dfn)) dfn)"
    by (simp add: run updater_runs_snoc ledger_after_run [OF dfn(1)])
  moreover have "\<forall>i < length df. R (df ! i) (map (step_row now (current_prices_of fetch dfn)) dfn ! i)"
    using dfn(2,3) step by simp
  ultimately show ?case using dfn(2) by simp
qed

lemma updater_runs_window:
  assumes "tracking_file s = Some df" and "\<forall>row \<in> set df. in_window row"
  shows "\<exists>dfn. tracking_file (updater_runs runs s) = Some dfn \<and> length dfn = length df
           \<and> (\<forall>i < length df. in_window (dfn ! i)
                  \<and> business_days_tracked (df ! i) \<le> business_days_tracked (dfn ! i))"
proof -
  let ?R = "\<lambda>r1 r2. in_window r1 \<longrightarrow>
              in_window r2 \<and> business_days_tracked r1 \<le> business_days_tracked r2"
  have refl: "\<And>row. ?R row row" by simp
  have step: "\<And>r1 r2 now cp. ?R r1 r2 \<Longrightarrow> ?R r1 (step_row now cp r2)"
    using step_row_window(1,2) by (meson order_trans)
  from updater_runs_rel [where R = ?R, OF assms(1) refl step, of runs]
  obtain dfn where dfn: "tracking_file (updater_runs runs s) = Some dfn" "length dfn = length df"
    "\<forall>i < length df. ?R (df ! i) (dfn ! i)" by blast
  have "\<forall>i < length df. in_window (df ! i)"
    using assms(2) by simp
  with dfn show ?thesis by blast
qed

lemma step_row_transition:
  assumes "in_window row"
  shows "(status row = ''active'' \<and> dict_get cp (ticker row) \<noteq> None
            \<longrightarrow> business_days_tracked (step_row now cp row) = business_days_tracked row + 1)"
    and "(status (step_row now cp row) = ''completed'') = (business_days_tracked (step_row now cp row) = 10)"
    and "(status row = ''active'' \<and> status (step_row now cp row) = ''completed'')
           = (business_days_tracked row = 9 \<and> business_days_tracked (step_row now cp row) = 10)"
    and "business_days_tracked (step_row now cp row) \<le> 10"
  using assms by (auto simp: in_window_def step_row_eq split: option.splits)

text \<open>
  The observation window is an invariant of the whole system: the detector creates rows
  inside it, and insertion, the updater and the archiver keep every row of the ledger and
  of the historical file inside it.
\<close>

lemma scan_ticker_in_window:
  "\<forall>row \<in> set movers. in_window row \<Longrightarrow>
   \<forall>row \<in> set (scan_ticker threshold now movers tk h). in_window row"
  by (cases h) (auto simp: Let_def in_window_def)

lemma scan_movers_in_window_acc:
  "\<forall>row \<in> set movers. in_window row \<Longrightarrow>
   \<forall>row \<in> set (scan_movers threshold now fetch i tickers movers). in_window row"
proof (induction tickers arbitrary: i movers)
  case Nil
  then show ?case by simp
next
  case (Cons tk rest)
  show ?case
    using Cons.IH [OF scan_ticker_in_window [OF Cons.prems]] by simp
qed

lemma scan_movers_in_window:
  "\<forall>row \<in> set (scan_movers threshold now fetch 0 tickers []). in_window row"
  by (rule scan_movers_in_window_acc) simp

lemma update_tracking_list_in_window:
  assumes "ledger_in_window s" and "\<forall>row \<in> set new_movers. in_window row"
  shows "ledger_in_window (fst (update_tracking_list new_movers s))"
  using assms
  by (auto simp: ledger_in_window_def update_tracking_list_def Let_def list_all_iff
           split: option.splits)

lemma track_existing_stocks_in_window:
  assumes "ledger_in_window s"
  shows "ledger_in_window (fst (track_existing_stocks now fetch s))"
proof (cases "tracking_file s")
  case None
  then show ?thesis using assms by (simp add: track_existing_stocks_def)
next
  case (Some df)
  show ?thesis
    using assms Some
    by (auto simp: track_existing_stocks_eq [OF Some] ledger_in_window_def list_all_iff
          step_row_window(1) split: option.splits)
qed

lemma archive_completed_stocks_in_window:
  assumes "ledger_in_window s"
  shows "ledger_in_window (archive_completed_stocks s)"
  using assms
  by (auto simp: ledger_in_window_def archive_completed_stocks_def Let_def list_all_iff
           split: option.splits)

lemma run_daily_update_in_window:
  assumes "ledger_in_window s"
    and "run_daily_update threshold now wiki cache fetch5d fetch1d s = Inr (s', new_movers, daily_updates)"
  shows "ledger_in_window s'"
proof -
  from assms(2) obtain tickers where t: "get_sp500_tickers wiki cache = Inr tickers"
    and nm: "new_movers = scan_movers threshold now fetch5d 0 tickers []"
    by (auto simp: run_daily_update_def get_daily_movers_def Let_def
             split: sum.splits prod.splits)
  let ?s1 = "fst (update_tracking_list new_movers s)"
  let ?s2 = "fst (track_existing_stocks now fetch1d ?s1)"
  have s': "s' = archive_completed_stocks ?s2"
    using assms(2) t
    by (auto simp: run_daily_update_def get_daily_movers_def Let_def
             split: sum.splits prod.splits)
  have "ledger_in_window ?s1"
    using assms(1) scan_movers_in_window unfolding nm
    by (rule update_tracking_list_in_window)
  then have "ledger_in_window ?s2"
    by (rule track_existing_stocks_in_window)
  then show ?thesis
    unfolding s' by (rule archive_completed_stocks_in_window)
qed

section \<open>The snapshots of an event\<close>

lemma step_row_mono:
  "business_days_tracked row \<le> business_days_tracked (step_row now cp row)"
  by (simp add: step_row_eq split: option.splits)

lemma updater_runs_mono:
  assumes "tracking_file s = Some df"
  shows "\<exists>dfn. tracking_file (updater_runs runs s) = Some dfn \<and> length dfn = length df
           \<and> (\<forall>i < length df. business_days_tracked (df ! i) \<le> business_days_tracked (dfn ! i))"
proof -
  let ?R = "\<lambda>r1 r2 :: tracking_row. business_days_tracked r1 \<le> business_days_tracked r2"
  have refl: "\<And>row. ?R row row" by simp
  have step: "\<And>r1 r2 now cp. ?R r1 r2 \<Longrightarrow> ?R r1 (step_row now cp r2)"
    using step_row_mono by (meson order_trans)
  show ?thesis
    by (rule updater_runs_rel [where R = ?R, OF assms refl step])
qed

lemma appended_for_cases:
  assumes "tracking_file s = Some df" and "i < length df"
  shows "(status (df ! i) = ''active'' \<and> dict_get (current_prices_of fetch df) (ticker (df ! i)) \<noteq> None
           \<and> (\<exists>snap. appended_for now fetch s i = [snap]
                \<and> tracking_day snap = business_days_tracked (df ! i) + 1
                \<and> tracking_day snap = business_days_tracked (step_row now (current_prices_of fetch df) (df ! i))
                \<and> snap_ticker snap = ticker (df ! i)
                \<and> snap_date_detected snap = date_detected (df ! i)))
       \<or> (\<not> (status (df ! i) = ''active''
                 \<and> dict_get (current_prices_of fetch df) (ticker (df ! i)) \<noteq> None)
           \<and> appended_for now fetch s i = []
           \<and> step_row now (current_prices_of fetch df) (df ! i) = df ! i)"
  using assms
  by (auto simp: appended_for_def step_snapshots_eq step_row_eq split: option.splits)

lemma snapshots_of_event_days:
  assumes "tracking_file s = Some df" and "i < length df"
  shows "\<exists>dfn. tracking_file (updater_runs runs s) = Some dfn \<and> length dfn = length df
           \<and> map tracking_day (snapshots_of_event i runs s)
               = [business_days_tracked (df ! i) + 1 .. business_days_tracked (dfn ! i)]"
  using assms
proof (induction runs arbitrary: s df)
  case Nil
  then show ?case by simp
next
  case (Cons run runs)
  obtain now fetch where run: "run = (now, fetch)" by (cases run)
  let ?cp = "current_prices_of fetch df"
  let ?s1 = "fst (track_existing_stocks now fetch s)"
  let ?df1 = "map (step_row now ?cp) df"
  have l1: "tracking_file ?s1 = Some ?df1"
    by (rule ledger_after_run [OF Cons.prems(1)])
  have i1: "i < length ?df1" using Cons.prems(2) by simp
  from Cons.IH [OF l1 i1] obtain dfn where
    dfn: "tracking_file (updater_runs runs ?s1) = Some dfn" "length dfn = length ?df1"
      "map tracking_day (snapshots_of_event i runs ?s1)
         = [business_days_tracked (?df1 ! i) + 1 .. business_days_tracked (dfn ! i)]"
    by blast
  from updater_runs_mono [OF l1, of runs] dfn(1) i1
  have mono: "business_days_tracked (?df1 ! i) \<le> business_days_tracked (dfn ! i)"
    by auto
  have nth: "?df1 ! i = step_row now ?cp (df ! i)" using Cons.prems(2) by simp
  have "map tracking_day (appended_for now fetch s i @ snapshots_of_event i runs ?s1)
          = [business_days_tracked (df ! i) + 1 .. business_days_tracked (dfn ! i)]"
    using appended_for_cases [OF Cons.prems, of fetch now]
  proof (elim disjE conjE exE)
    fix snap
    assume a: "appended_for now fetch s i = [snap]"
       "tracking_day snap = business_days_tracked (df ! i) + 1"
       "tracking_day snap = business_days_tracked (step_row now ?cp (df ! i))"
    have "[business_days_tracked (df ! i) + 1 .. business_days_tracked (dfn ! i)]
            = (business_days_tracked (df ! i) + 1)
                # [business_days_tracked (df ! i) + 1 + 1 .. business_days_tracked (dfn ! i)]"
      using mono a(2,3) nth by (intro upto_rec1) simp
    then show ?thesis
      using a dfn(3) nth by simp
  next
    assume a: "appended_for now fetch s i = []" "step_row now ?cp (df ! i) = df ! i"
    then show ?thesis using dfn(3) nth by simp
  qed
  then show ?case
    using dfn(1,2) by (simp add: run)
qed

lemma log_after_run:
  assumes "tracking_file s = Some df"
  shows "snapshot_log (fst (track_existing_stocks now fetch s))
           = snapshot_log s @ concat (map (appended_for now fetch s) [0..<length df])"
proof -
  have "snd (track_existing_stocks now fetch s)
          = concat (map (step_snapshots now (current_prices_of fetch df)) df)"
    using assms by (simp add: track_existing_stocks_eq)
  then have c: "concat (map (step_snapshots now (current_prices_of fetch df)) df)
                  = concat (map (appended_for now fetch s) [0..<length df])"
    using daily_updates_concat [OF assms, of now fetch] by simp
  show ?thesis
    unfolding c [symmetric]
    using assms by (simp add: track_existing_stocks_eq snapshot_log_def split: option.splits)
qed

lemma mset_concat_upt:
  "mset (concat (map f [0..<n])) = (\<Sum>i<n. mset (f i))"
  by (induction n) (simp_all add: ac_simps)

lemma log_after_runs:
  assumes "tracking_file s = Some df"
  shows "mset (snapshot_log (updater_runs runs s))
           = mset (snapshot_log s) + (\<Sum>i<length df. mset (snapshots_of_event i runs s))"
  using assms
proof (induction runs arbitrary: s df)
  case Nil
  then show ?case by simp
next
  case (Cons run runs)
  obtain now fetch where run: "run = (now, fetch)" by (cases run)
  let ?s1 = "fst (track_existing_stocks now fetch s)"
  let ?df1 = "map (step_row now (current_prices_of fetch df)) df"
  have l1: "tracking_file ?s1 = Some ?df1"
    by (rule ledger_after_run [OF Cons.prems])
  have "mset (snapshot_log (updater_runs runs ?s1))
          = mset (snapshot_log ?s1) + (\<Sum>i<length ?df1. mset (snapshots_of_event i runs ?s1))"
    by (rule Cons.IH [OF l1])
  also have "mset (snapshot_log ?s1)
          = mset (snapshot_log s) + (\<Sum>i<length df. mset (appended_for now fetch s i))"
    by (simp add: log_after_run [OF Cons.prems] mset_concat_upt)
  finally show ?case
    by (simp add: run sum.distrib ac_simps)
qed

section \<open>The archiver\<close>

lemma no_completed_among_active:
  "filter (\<lambda>row. status row = ''completed'') (filter (\<lambda>row. status row = ''active'') df) = []"
  by (induction df) auto

lemma archive_without_completed:
  assumes "tracking_file s = Some df"
    and "filter (\<lambda>row. status row = ''completed'') df = []"
  shows "archive_completed_stocks s = s"
  using assms by (simp add: archive_completed_stocks_def)

section \<open>The feature extractor\<close>

text \<open>
  The frame returned has one row for each snapshot, in order: the snapshot with its
  features. It is returned whenever every date of the file parses.
\<close>

lemma those_map_nth:
  "those (map f xs) = Some ys \<Longrightarrow>
   length ys = length xs \<and> (\<forall>i < length xs. f (xs ! i) = Some (ys ! i))"
proof (induction xs arbitrary: ys)
  case Nil
  then show ?case by simp
next
  case (Cons x xs)
  from Cons.prems obtain y ys' where y: "f x = Some y" and ys': "those (map f xs) = Some ys'"
    and ys: "ys = y # ys'"
    by (auto split: option.splits)
  from Cons.IH [OF ys'] have "length ys' = length xs"
    and "\<forall>i < length xs. f (xs ! i) = Some (ys' ! i)" by simp_all
  then show ?case
    using y ys by (auto simp: nth_Cons split: nat.splits)
qed

lemma those_map_total:
  "\<forall>x \<in> set xs. f x \<noteq> None \<Longrightarrow> \<exists>ys. those (map f xs) = Some ys"
  by (induction xs) (auto split: option.splits)

lemma dataset_rows:
  assumes "daily_snapshot_file s = Some df"
    and "get_ml_ready_dataset to_datetime s = Inr rows"
  shows "length rows = length df"
    and "i < length df \<Longrightarrow>
           \<exists>dates. parse_dates to_datetime (df ! i) = Some dates
                 \<and> rows ! i = add_features (df ! i) dates"
proof -
  from assms obtain dates where d: "those (map (parse_dates to_datetime) df) = Some dates"
    and r: "rows = map2 add_features df dates"
    by (auto simp: get_ml_ready_dataset_def split: option.splits)
  from those_map_nth [OF d] have len: "length dates = length df"
    and nth: "\<forall>i < length df. parse_dates to_datetime (df ! i) = Some (dates ! i)"
    by simp_all
  show "length rows = length df" using r len by simp
  show "i < length df \<Longrightarrow>
           \<exists>dates. parse_dates to_datetime (df ! i) = Some dates
                 \<and> rows ! i = add_features (df ! i) dates"
    using r len nth by simp
qed

lemma dataset_total:
  assumes "daily_snapshot_file s = Some df"
    and "\<forall>row \<in> set df. to_datetime (snap_date_detected row) \<noteq> None
                       \<and> to_datetime (current_date row) \<noteq> None"
  shows "\<exists>rows. get_ml_ready_dataset to_datetime s = Inr rows"
proof -
  have "\<forall>row \<in> set df. parse_dates to_datetime row \<noteq> None"
    using assms(2) by (auto simp: parse_dates_def split: option.splits)
  from those_map_total [OF this] obtain dates
    where "those (map (parse_dates to_datetime) df) = Some dates" by blast
  then show ?thesis
    using assms(1) by (simp add: get_ml_ready_dataset_def)
qed

lemma add_features_snapshot:
  "snapshot.truncate (add_features row dates) = row"
  "initial_change_pct (add_features row dates) = initial_change_pct row"
  "cumulative_change_pct (add_features row dates) = cumulative_change_pct row"
  by (simp_all add: add_features_def snapshot.truncate_def snapshot.extend_def)

section \<open>Double arithmetic in the updater and the detector\<close>

text \<open>
  An event detected at 160 and observed at 183: the stored cumulative change is
  \<open>14.37\<close>, the rounding of \<open>14.374999999999998\<close>.
\<close>

lemma updater_rounds_in_double_arithmetic:
  "track_existing_stocks ''2024-01-03'' (\<lambda>i. Closes [Finite 183])
     \<lparr>tracking_file = Some
        [\<lparr>ticker = ''X'', date_detected = ''2024-01-02'', detection_price = Finite 160,
          change_pct = Finite 6, business_days_tracked = 0, status = ''active'',
          current_price = NaN, total_change_pct = NaN, last_updated = None\<rparr>],
      historical_file = None, daily_snapshot_file = None\<rparr>
   = (\<lparr>tracking_file = Some
         [\<lparr>ticker = ''X'', date_detected = ''2024-01-02'', detection_price = Finite 160,
           change_pct = Finite 6, business_days_tracked = 1, status = ''active'',
           current_price = Finite 183, total_change_pct = round_double (1437 / 100),
           last_updated = Some ''2024-01-03''\<rparr>],
       historical_file = None,
       daily_snapshot_file = Some
         [\<lparr>snap_ticker = ''X'', snap_date_detected = ''2024-01-02'', tracking_day = 1,
           current_date = ''2024-01-03'', snap_detection_price = Finite 160,
           snap_current_price = Finite 183, initial_change_pct = Finite 6,
           cumulative_change_pct = round_double (1437 / 100), snap_status = ''active''\<rparr>]\<rparr>,
      [\<lparr>snap_ticker = ''X'', snap_date_detected = ''2024-01-02'', tracking_day = 1,
        current_date = ''2024-01-03'', snap_detection_price = Finite 160,
        snap_current_price = Finite 183, initial_change_pct = Finite 6,
        cumulative_change_pct = round_double (1437 / 100), snap_status = ''active''\<rparr>])"
  by (simp add: track_existing_stocks_def active_stocks_def current_prices_of_def dict_get_def
        Let_def round_pct_change_160_183)

text \<open>
  With threshold 0 a fall from 1000000 to 999999 is detected, and the initial change the
  event stores is the negative zero.
\<close>

lemma detector_stores_negative_zero:
  "get_daily_movers (Finite 0) now (Got [''X'']) cache
     (\<lambda>i. Closes [Finite 1000000, Finite 999999])
   = Inr [\<lparr>ticker = ''X'', date_detected = now, detection_price = Finite 999999,
           change_pct = NegZero, business_days_tracked = 0, status = ''active'',
           current_price = NaN, total_change_pct = NaN, last_updated = None\<rparr>]"
  by (simp add: get_daily_movers_def replace_dot_def Let_def
        threshold_zero_1000000_999999 round_pct_change_1000000_999999)

section \<open>Properties\<close>

text \<open>
  C1. For every active event whose current price is available, one run of the updater
  adds exactly 1 to the observation count, sets the cumulative change to
  \<open>(current_price - detection_price) / detection_price * 100\<close> rounded to 2 places
  (each operation in double arithmetic), sets the status to \<open>completed\<close> when the new
  count is at least 10 (and leaves it \<open>active\<close> otherwise), and appends exactly one
  snapshot for the event, which carries the status after the update and the fields of
  the event. The snapshots the run returns are those appended for the rows, in the order
  of the rows, so the snapshot of the event stands between those of the rows before it
  and those of the rows after it; the run writes them to \<open>daily_snapshots.csv\<close> behind
  the rows that file had.
\<close>

theorem daily_update_of_active_event:
  assumes "tracking_file s = Some df" and "i < length df"
    and "status (df ! i) = ''active''"
    and "dict_get (current_prices_of fetch df) (ticker (df ! i)) = Some price"
    and "track_existing_stocks now fetch s = (s', daily_updates)"
  shows "\<exists>df' snap.
           tracking_file s' = Some df' \<and> length df' = length df
         \<and> business_days_tracked (df' ! i) = business_days_tracked (df ! i) + 1
         \<and> total_change_pct (df' ! i) =
             py_round (fl_mul (fl_div (fl_sub price (detection_price (df ! i)))
                                      (detection_price (df ! i))) (Finite 100)) 2
         \<and> current_price (df' ! i) = price
         \<and> last_updated (df' ! i) = Some now
         \<and> status (df' ! i) =
             (if 10 \<le> business_days_tracked (df ! i) + 1 then ''completed'' else ''active'')
         \<and> appended_for now fetch s i = [snap]
         \<and> snap_status snap = status (df' ! i)
         \<and> tracking_day snap = business_days_tracked (df' ! i)
         \<and> cumulative_change_pct snap = total_change_pct (df' ! i)
         \<and> snap_current_price snap = price
         \<and> daily_updates = concat (map (appended_for now fetch s) [0..<length df])
         \<and> snap_ticker snap = ticker (df ! i)
         \<and> snap_date_detected snap = date_detected (df ! i)
         \<and> snap_detection_price snap = detection_price (df ! i)
         \<and> initial_change_pct snap = change_pct (df ! i)
         \<and> current_date snap = now
         \<and> daily_updates = concat (map (appended_for now fetch s) [0..<i]) @ [snap]
                              @ concat (map (appended_for now fetch s) [Suc i..<length df])
         \<and> daily_snapshot_file s' = Some (snapshot_log s @ daily_updates)
         \<and> snapshot_log s' = snapshot_log s @ daily_updates"
proof -
  let ?cp = "current_prices_of fetch df"
  let ?snap = "hd (step_snapshots now ?cp (df ! i))"
  have s': "s' = fst (track_existing_stocks now fetch s)"
    and du: "daily_updates = snd (track_existing_stocks now fetch s)"
    using assms(5) by simp_all
  have ledger: "tracking_file s' = Some (map (step_row now ?cp) df)"
    unfolding s' by (rule ledger_after_run [OF assms(1)])
  have row: "map (step_row now ?cp) df ! i = step_row now ?cp (df ! i)"
    using assms(2) by simp
  have app: "appended_for now fetch s i = step_snapshots now ?cp (df ! i)"
    using assms(1,2) by (simp add: appended_for_def)
  have one: "appended_for now fetch s i = [?snap]"
    using assms(3,4) by (simp add: app step_snapshots_eq)
  have log: "daily_updates = concat (map (appended_for now fetch s) [0..<length df])"
    unfolding du by (rule daily_updates_concat [OF assms(1)])
  have "[0..<length df] = [0..<i] @ [i] @ [Suc i..<length df]"
    using assms(2) by (metis Cons_eq_appendI append_Nil le_add2 le_add_same_cancel2 less_imp_add_positive upt_add_eq_append upt_conv_Cons)
  then have split: "daily_updates = concat (map (appended_for now fetch s) [0..<i]) @ [?snap]
                      @ concat (map (appended_for now fetch s) [Suc i..<length df])"
    using log one by simp
  then have nonempty: "daily_updates \<noteq> []"
    by simp
  have written: "snapshot_log s' = snapshot_log s @ daily_updates"
    unfolding s' log by (rule log_after_run [OF assms(1)])
  have "daily_snapshot_file s' \<noteq> None"
    using nonempty assms(1) unfolding s' du
    by (simp add: track_existing_stocks_eq)
  then have stored: "daily_snapshot_file s' = Some (snapshot_log s @ daily_updates)"
    using written by (auto simp: snapshot_log_def)
  have fields: "tracking_file s' = Some (map (step_row now ?cp) df)
         \<and> length (map (step_row now ?cp) df) = length df
         \<and> business_days_tracked (map (step_row now ?cp) df ! i) = business_days_tracked (df ! i) + 1
         \<and> total_change_pct (map (step_row now ?cp) df ! i) =
             py_round (fl_mul (fl_div (fl_sub price (detection_price (df ! i)))
                                      (detection_price (df ! i))) (Finite 100)) 2
         \<and> current_price (map (step_row now ?cp) df ! i) = price
         \<and> last_updated (map (step_row now ?cp) df ! i) = Some now
         \<and> status (map (step_row now ?cp) df ! i) =
             (if 10 \<le> business_days_tracked (df ! i) + 1 then ''completed'' else ''active'')
         \<and> snap_status ?snap = status (map (step_row now ?cp) df ! i)
         \<and> tracking_day ?snap = business_days_tracked (map (step_row now ?cp) df ! i)
         \<and> cumulative_change_pct ?snap = total_change_pct (map (step_row now ?cp) df ! i)
         \<and> snap_current_price ?snap = price
         \<and> snap_ticker ?snap = ticker (df ! i)
         \<and> snap_date_detected ?snap = date_detected (df ! i)
         \<and> snap_detection_price ?snap = detection_price (df ! i)
         \<and> initial_change_pct ?snap = change_pct (df ! i)
         \<and> current_date ?snap = now"
    using ledger assms(3,4)
    by (simp add: row step_row_eq step_snapshots_eq pct_change_def)
  show ?thesis
    using fields one log split stored written by blast
qed

theorem daily_update_of_active_event_witness:
  "(let df = [\<lparr>ticker = ''X'', date_detected = ''2024-01-02'', detection_price = Finite 100,
      change_pct = Finite 6, business_days_tracked = 9, status = ''active'',
      current_price = Finite 108, total_change_pct = Finite 8, last_updated = Some ''2024-01-15''\<rparr>];
        s = \<lparr>tracking_file = Some df, historical_file = None, daily_snapshot_file = None\<rparr>;
        fetch = (\<lambda>i. Closes [Finite 110]);
        s' = fst (track_existing_stocks ''2024-01-16'' fetch s)
    in status (df ! 0) = ''active''
     \<and> dict_get (current_prices_of fetch df) (ticker (df ! 0)) = Some (Finite 110)
     \<and> (\<exists>df' snap. tracking_file s' = Some df'
           \<and> business_days_tracked (df' ! 0) = 10
           \<and> total_change_pct (df' ! 0) = Finite 10
           \<and> status (df' ! 0) = ''completed''
           \<and> appended_for ''2024-01-16'' fetch s 0 = [snap]
           \<and> snap_status snap = ''completed''
           \<and> daily_snapshot_file s' = Some [snap]))"
proof -
  let ?df = "[\<lparr>ticker = ''X'', date_detected = ''2024-01-02'', detection_price = Finite 100,
      change_pct = Finite 6, business_days_tracked = 9, status = ''active'',
      current_price = Finite 108, total_change_pct = Finite 8, last_updated = Some ''2024-01-15''\<rparr>]"
  let ?s = "\<lparr>tracking_file = Some ?df, historical_file = None, daily_snapshot_file = None\<rparr>"
  let ?fetch = "\<lambda>i::nat. Closes [Finite 110]"
  have h1: "tracking_file ?s = Some ?df" by simp
  have h2: "0 < length ?df" by simp
  have h3: "status (?df ! 0) = ''active''" by simp
  have h4: "dict_get (current_prices_of ?fetch ?df) (ticker (?df ! 0)) = Some (Finite 110)"
    by (simp add: current_prices_of_def active_stocks_def dict_get_def)
  have h5: "track_existing_stocks ''2024-01-16'' ?fetch ?s
      = (fst (track_existing_stocks ''2024-01-16'' ?fetch ?s), snd (track_existing_stocks ''2024-01-16'' ?fetch ?s))"
    by simp
  have n: "py_round (fl_mul (fl_div (fl_sub (Finite 110) (Finite 100)) (Finite 100)) (Finite 100)) 2
             = Finite 10"
    using round_pct_change_100_110 by (simp add: pct_change_def)
  show ?thesis
    using daily_update_of_active_event [OF h1 h2 h3 h4 h5] h3 h4
    by (auto simp: Let_def n snapshot_log_def)
qed

text \<open>
  C2. Let every row of the ledger be in its observation window (as every event the
  detector creates is, \<open>scan_movers_in_window\<close>, and as every daily run keeps it,
  \<open>run_daily_update_in_window\<close>). Take any sequence of runs of the updater, the ledger
  \<open>df1\<close> it leads to and the ledger \<open>df2\<close> after one more run. Then for every event
  the observation count never decreases, grows by at most 1 in a run and never exceeds 10;
  it grows by exactly 1 when the event is active and its price is available; the event is
  completed exactly when its count is 10 and active exactly when it is below, so it
  becomes completed in the run that takes the count from 9 to 10; and a completed event
  is left as it is, with no snapshot appended: it never becomes active again.
\<close>

theorem observation_window:
  assumes "tracking_file s = Some df" and "\<forall>row \<in> set df. in_window row"
    and "s1 = updater_runs runs s"
    and "track_existing_stocks now fetch s1 = (s2, daily_updates)"
  shows "\<exists>df1 df2.
           tracking_file s1 = Some df1 \<and> tracking_file s2 = Some df2
         \<and> length df1 = length df \<and> length df2 = length df
         \<and> (\<forall>i < length df.
               business_days_tracked (df ! i) \<le> business_days_tracked (df1 ! i)
             \<and> business_days_tracked (df1 ! i) \<le> business_days_tracked (df2 ! i)
             \<and> business_days_tracked (df2 ! i) \<le> business_days_tracked (df1 ! i) + 1
             \<and> business_days_tracked (df2 ! i) \<le> 10
             \<and> (status (df1 ! i) = ''active''
                  \<and> dict_get (current_prices_of fetch df1) (ticker (df1 ! i)) \<noteq> None
                \<longrightarrow> business_days_tracked (df2 ! i) = business_days_tracked (df1 ! i) + 1)
             \<and> ((status (df2 ! i) = ''completed'') = (business_days_tracked (df2 ! i) = 10))
             \<and> ((status (df2 ! i) = ''active'') = (business_days_tracked (df2 ! i) < 10))
             \<and> ((status (df1 ! i) = ''active'' \<and> status (df2 ! i) = ''completed'')
                  = (business_days_tracked (df1 ! i) = 9 \<and> business_days_tracked (df2 ! i) = 10))
             \<and> (status (df1 ! i) = ''completed''
                \<longrightarrow> df2 ! i = df1 ! i \<and> appended_for now fetch s1 i = []))"
proof -
  from updater_runs_window [OF assms(1,2), of runs] assms(3)
  obtain df1 where df1: "tracking_file s1 = Some df1" "length df1 = length df"
    "\<forall>i < length df. in_window (df1 ! i)
        \<and> business_days_tracked (df ! i) \<le> business_days_tracked (df1 ! i)"
    by blast
  let ?cp = "current_prices_of fetch df1"
  let ?df2 = "map (step_row now ?cp) df1"
  have s2: "s2 = fst (track_existing_stocks now fetch s1)"
    using assms(4) by simp
  have ledger: "tracking_file s2 = Some ?df2"
    unfolding s2 by (rule ledger_after_run [OF df1(1)])
  have rows: "\<forall>i < length df.
               business_days_tracked (df ! i) \<le> business_days_tracked (df1 ! i)
             \<and> business_days_tracked (df1 ! i) \<le> business_days_tracked (?df2 ! i)
             \<and> business_days_tracked (?df2 ! i) \<le> business_days_tracked (df1 ! i) + 1
             \<and> business_days_tracked (?df2 ! i) \<le> 10
             \<and> (status (df1 ! i) = ''active''
                  \<and> dict_get ?cp (ticker (df1 ! i)) \<noteq> None
                \<longrightarrow> business_days_tracked (?df2 ! i) = business_days_tracked (df1 ! i) + 1)
             \<and> ((status (?df2 ! i) = ''completed'') = (business_days_tracked (?df2 ! i) = 10))
             \<and> ((status (?df2 ! i) = ''active'') = (business_days_tracked (?df2 ! i) < 10))
             \<and> ((status (df1 ! i) = ''active'' \<and> status (?df2 ! i) = ''completed'')
                  = (business_days_tracked (df1 ! i) = 9 \<and> business_days_tracked (?df2 ! i) = 10))
             \<and> (status (df1 ! i) = ''completed''
                \<longrightarrow> ?df2 ! i = df1 ! i \<and> appended_for now fetch s1 i = [])"
  proof (intro allI impI)
    fix i assume i: "i < length df"
    then have i1: "i < length df1" using df1(2) by simp
    from df1(3) i have w: "in_window (df1 ! i)"
      and mono: "business_days_tracked (df ! i) \<le> business_days_tracked (df1 ! i)" by auto
    have nth: "?df2 ! i = step_row now ?cp (df1 ! i)" using i1 by simp
    have w2: "in_window (step_row now ?cp (df1 ! i))"
      by (rule step_row_window(1) [OF w])
    have act: "(status (step_row now ?cp (df1 ! i)) = ''active'')
                 = (business_days_tracked (step_row now ?cp (df1 ! i)) < 10)"
      using w2 by (auto simp: in_window_def)
    have app: "status (df1 ! i) = ''completed'' \<longrightarrow> appended_for now fetch s1 i = []"
      using df1(1) i1 by (simp add: appended_for_def step_row_skipped)
    show "business_days_tracked (df ! i) \<le> business_days_tracked (df1 ! i)
             \<and> business_days_tracked (df1 ! i) \<le> business_days_tracked (?df2 ! i)
             \<and> business_days_tracked (?df2 ! i) \<le> business_days_tracked (df1 ! i) + 1
             \<and> business_days_tracked (?df2 ! i) \<le> 10
             \<and> (status (df1 ! i) = ''active''
                  \<and> dict_get ?cp (ticker (df1 ! i)) \<noteq> None
                \<longrightarrow> business_days_tracked (?df2 ! i) = business_days_tracked (df1 ! i) + 1)
             \<and> ((status (?df2 ! i) = ''completed'') = (business_days_tracked (?df2 ! i) = 10))
             \<and> ((status (?df2 ! i) = ''active'') = (business_days_tracked (?df2 ! i) < 10))
             \<and> ((status (df1 ! i) = ''active'' \<and> status (?df2 ! i) = ''completed'')
                  = (business_days_tracked (df1 ! i) = 9 \<and> business_days_tracked (?df2 ! i) = 10))
             \<and> (status (df1 ! i) = ''completed''
                \<longrightarrow> ?df2 ! i = df1 ! i \<and> appended_for now fetch s1 i = [])"
      unfolding nth
      using mono step_row_window(2,3) [OF w, where now = now and cp = ?cp]
        step_row_transition [OF w, where now = now and cp = ?cp] act app
        step_row_skipped(1) [where row = "df1 ! i" and now = now and cp = ?cp]
      by blast
  qed
  have len2: "length ?df2 = length df"
    using df1(2) by simp
  show ?thesis
    using df1(1,2) ledger len2 rows by blast
qed

theorem observation_window_witness:
  "(let row = \<lparr>ticker = ''X'', date_detected = ''2024-01-02'', detection_price = Finite 100,
                change_pct = Finite 6, business_days_tracked = 8, status = ''active'',
                current_price = Finite 108, total_change_pct = Finite 8,
                last_updated = Some ''2024-01-12''\<rparr>;
        s = \<lparr>tracking_file = Some [row], historical_file = None, daily_snapshot_file = None\<rparr>;
        fetch = (\<lambda>i. Closes [Finite 110]);
        s1 = updater_runs [(''2024-01-15'', fetch)] s;
        s2 = fst (track_existing_stocks ''2024-01-16'' fetch s1)
    in in_window row
     \<and> (\<exists>df1 df2. tracking_file s1 = Some df1 \<and> tracking_file s2 = Some df2
           \<and> business_days_tracked (df1 ! 0) = 9 \<and> status (df1 ! 0) = ''active''
           \<and> business_days_tracked (df2 ! 0) = 10 \<and> status (df2 ! 0) = ''completed''
           \<and> business_days_tracked (df1 ! 0) \<le> business_days_tracked (df2 ! 0)
           \<and> business_days_tracked (df2 ! 0) \<le> 10))"
proof -
  let ?row = "\<lparr>ticker = ''X'', date_detected = ''2024-01-02'', detection_price = Finite 100,
                change_pct = Finite 6, business_days_tracked = 8, status = ''active'',
                current_price = Finite 108, total_change_pct = Finite 8,
                last_updated = Some ''2024-01-12''\<rparr>"
  let ?s = "\<lparr>tracking_file = Some [?row], historical_file = None, daily_snapshot_file = None\<rparr>"
  let ?fetch = "\<lambda>i::nat. Closes [Finite 110]"
  let ?s1 = "updater_runs [(''2024-01-15'', ?fetch)] ?s"
  let ?s2 = "fst (track_existing_stocks ''2024-01-16'' ?fetch ?s1)"
  have h1: "tracking_file ?s = Some [?row]" by simp
  have w: "in_window ?row" by (simp add: in_window_def)
  have h2: "\<forall>r \<in> set [?row]. in_window r" using w by simp
  have h4: "track_existing_stocks ''2024-01-16'' ?fetch ?s1
              = (?s2, snd (track_existing_stocks ''2024-01-16'' ?fetch ?s1))"
    by simp
  have ev1: "tracking_file ?s1 = Some [?row\<lparr>business_days_tracked := 9, current_price := Finite 110,
                 total_change_pct := Finite 10, last_updated := Some ''2024-01-15''\<rparr>]"
    by (simp add: track_existing_stocks_def active_stocks_def current_prices_of_def dict_get_def
          Let_def round_pct_change_100_110)
  from observation_window [OF h1 h2 refl h4]
  obtain df1 df2 where d: "tracking_file ?s1 = Some df1" "tracking_file ?s2 = Some df2"
    and all: "\<forall>i < length [?row].
               business_days_tracked (df1 ! i) \<le> business_days_tracked (df2 ! i)
             \<and> business_days_tracked (df2 ! i) \<le> 10
             \<and> (status (df1 ! i) = ''active''
                  \<and> dict_get (current_prices_of ?fetch df1) (ticker (df1 ! i)) \<noteq> None
                \<longrightarrow> business_days_tracked (df2 ! i) = business_days_tracked (df1 ! i) + 1)
             \<and> ((status (df2 ! i) = ''completed'') = (business_days_tracked (df2 ! i) = 10))"
    by blast
  from d(1) ev1 have df1: "df1 = [?row\<lparr>business_days_tracked := 9, current_price := Finite 110,
                 total_change_pct := Finite 10, last_updated := Some ''2024-01-15''\<rparr>]"
    by simp
  have avail: "dict_get (current_prices_of ?fetch df1) (ticker (df1 ! 0)) \<noteq> None"
    unfolding df1 by (simp add: current_prices_of_def active_stocks_def dict_get_def)
  from all have "business_days_tracked (df1 ! 0) \<le> business_days_tracked (df2 ! 0)
             \<and> business_days_tracked (df2 ! 0) \<le> 10
             \<and> (status (df1 ! 0) = ''active''
                  \<and> dict_get (current_prices_of ?fetch df1) (ticker (df1 ! 0)) \<noteq> None
                \<longrightarrow> business_days_tracked (df2 ! 0) = business_days_tracked (df1 ! 0) + 1)
             \<and> ((status (df2 ! 0) = ''completed'') = (business_days_tracked (df2 ! 0) = 10))"
    by simp
  with avail have "business_days_tracked (df1 ! 0) = 9 \<and> status (df1 ! 0) = ''active''
           \<and> business_days_tracked (df2 ! 0) = 10 \<and> status (df2 ! 0) = ''completed''
           \<and> business_days_tracked (df1 ! 0) \<le> business_days_tracked (df2 ! 0)
           \<and> business_days_tracked (df2 ! 0) \<le> 10"
    unfolding df1 by simp
  with d w show ?thesis
    unfolding Let_def by blast
qed

text \<open>
  C3. The archiver is idempotent: a second call right after the first leaves the store,
  and so both the ledger and the historical file, as the first call left them. The first
  call keeps only active rows in the ledger, so the second finds no completed row and
  returns before it writes.
\<close>

theorem archive_idempotent:
  "archive_completed_stocks (archive_completed_stocks s) = archive_completed_stocks s
   \<and> tracking_file (archive_completed_stocks (archive_completed_stocks s))
       = tracking_file (archive_completed_stocks s)
   \<and> historical_file (archive_completed_stocks (archive_completed_stocks s))
       = historical_file (archive_completed_stocks s)"
proof -
  have idem: "archive_completed_stocks (archive_completed_stocks s) = archive_completed_stocks s"
  proof (cases "tracking_file s")
    case None
    then show ?thesis by (simp add: archive_completed_stocks_def)
  next
    case (Some df)
    show ?thesis
    proof (cases "filter (\<lambda>row. status row = ''completed'') df = []")
      case True
      with Some show ?thesis by (simp add: archive_without_completed)
    next
      case False
      let ?s1 = "archive_completed_stocks s"
      have l: "tracking_file ?s1 = Some (filter (\<lambda>row. status row = ''active'') df)"
        using Some False by (simp add: archive_completed_stocks_def Let_def)
      show ?thesis
        by (rule archive_without_completed [OF l no_completed_among_active])
    qed
  qed
  then show ?thesis by simp
qed

theorem archive_idempotent_witness:
  "(let finished = \<lparr>ticker = ''X'', date_detected = ''2024-01-02'', detection_price = Finite 100,
                 change_pct = Finite 6, business_days_tracked = 10, status = ''completed'',
                 current_price = Finite 110, total_change_pct = Finite 10,
                 last_updated = Some ''2024-01-16''\<rparr>;
        running = \<lparr>ticker = ''Y'', date_detected = ''2024-01-10'', detection_price = Finite 50,
                 change_pct = Finite (-7), business_days_tracked = 4, status = ''active'',
                 current_price = Finite 49, total_change_pct = Finite (-2),
                 last_updated = Some ''2024-01-16''\<rparr>;
        s = \<lparr>tracking_file = Some [finished, running], historical_file = None, daily_snapshot_file = None\<rparr>
    in archive_completed_stocks s
         = \<lparr>tracking_file = Some [running], historical_file = Some [finished], daily_snapshot_file = None\<rparr>
     \<and> archive_completed_stocks (archive_completed_stocks s)
         = \<lparr>tracking_file = Some [running], historical_file = Some [finished], daily_snapshot_file = None\<rparr>)"
proof -
  let ?finished = "\<lparr>ticker = ''X'', date_detected = ''2024-01-02'', detection_price = Finite 100,
                 change_pct = Finite 6, business_days_tracked = 10, status = ''completed'',
                 current_price = Finite 110, total_change_pct = Finite 10,
                 last_updated = Some ''2024-01-16''\<rparr>"
  let ?running = "\<lparr>ticker = ''Y'', date_detected = ''2024-01-10'', detection_price = Finite 50,
                 change_pct = Finite (-7), business_days_tracked = 4, status = ''active'',
                 current_price = Finite 49, total_change_pct = Finite (-2),
                 last_updated = Some ''2024-01-16''\<rparr>"
  let ?s = "\<lparr>tracking_file = Some [?finished, ?running], historical_file = None, daily_snapshot_file = None\<rparr>"
  have once: "archive_completed_stocks ?s
         = \<lparr>tracking_file = Some [?running], historical_file = Some [?finished], daily_snapshot_file = None\<rparr>"
    by (simp add: archive_completed_stocks_def)
  have "archive_completed_stocks (archive_completed_stocks ?s) = archive_completed_stocks ?s"
    using archive_idempotent [of ?s] by (rule conjunct1)
  with once show ?thesis
    by (simp only: Let_def)
qed

text \<open>
  C4. The claim: when the remote source fails and no cached list is usable, the universe
  provider returns the hardcoded minimal list and raises nothing. The code does not: in
  both total-failure outcomes (no cache file; a cache file that cannot be read) the last
  line of \<open>get_sp500_tickers\<close> raises NameError, and the hardcoded list is never returned.
\<close>

theorem get_sp500_tickers_total_failure_raises:
  "get_sp500_tickers Failed None = Inl (NameError ''fallback_ickers'')
   \<and> get_sp500_tickers Failed (Some Failed) = Inl (NameError ''fallback_ickers'')
   \<and> get_sp500_tickers Failed None \<noteq> Inr fallback_tickers
   \<and> get_sp500_tickers Failed (Some Failed) \<noteq> Inr fallback_tickers"
  by simp

text \<open>
  C5. The claim: for a snapshot whose initial change is exactly 0 the feature extractor
  does not divide, and gives the momentum continuation an explicit sentinel value. The
  code has no such case: it divides the two columns for every row. With initial change 0
  the rows below get \<open>+inf\<close>, \<open>-inf\<close> and NaN, the results of the division of
  their cumulative change by zero, and not one sentinel; the last row has the initial
  change \<open>-0.0\<close>, which \<open>round\<close> gives for a small negative change, and the positive
  cumulative change 2.5 divided by it is \<open>-inf\<close>.
\<close>

theorem momentum_continuation_zero_initial_counterexample:
  "get_ml_ready_dataset
     (\<lambda>d. if d = ''2024-01-02'' then Some 19724
          else if d = ''2024-01-03'' then Some 19725 else None)
     \<lparr>tracking_file = None, historical_file = None,
      daily_snapshot_file = Some
        [\<lparr>snap_ticker = ''A'', snap_date_detected = ''2024-01-02'', tracking_day = 1,
          current_date = ''2024-01-03'', snap_detection_price = Finite 40,
          snap_current_price = Finite 41, initial_change_pct = Finite 0,
          cumulative_change_pct = Finite (5 / 2), snap_status = ''active''\<rparr>,
         \<lparr>snap_ticker = ''B'', snap_date_detected = ''2024-01-02'', tracking_day = 1,
          current_date = ''2024-01-03'', snap_detection_price = Finite 40,
          snap_current_price = Finite 39, initial_change_pct = Finite 0,
          cumulative_change_pct = Finite (- (5 / 2)), snap_status = ''active''\<rparr>,
         \<lparr>snap_ticker = ''C'', snap_date_detected = ''2024-01-02'', tracking_day = 1,
          current_date = ''2024-01-03'', snap_detection_price = Finite 40,
          snap_current_price = Finite 40, initial_change_pct = Finite 0,
          cumulative_change_pct = Finite 0, snap_status = ''active''\<rparr>,
         \<lparr>snap_ticker = ''D'', snap_date_detected = ''2024-01-02'', tracking_day = 1,
          current_date = ''2024-01-03'', snap_detection_price = Finite 40,
          snap_current_price = Finite 41, initial_change_pct = NegZero,
          cumulative_change_pct = Finite (5 / 2), snap_status = ''active''\<rparr>]\<rparr>
   = Inr
        [\<lparr>snap_ticker = ''A'', snap_date_detected = ''2024-01-02'', tracking_day = 1,
          current_date = ''2024-01-03'', snap_detection_price = Finite 40,
          snap_current_price = Finite 41, initial_change_pct = Finite 0,
          cumulative_change_pct = Finite (5 / 2), snap_status = ''active'',
          days_since_detection = 1, initial_move_direction = ''loss'',
          initial_move_magnitude = Finite 0, momentum_continuation = PosInf,
          continued_direction = False\<rparr>,
         \<lparr>snap_ticker = ''B'', snap_date_detected = ''2024-01-02'', tracking_day = 1,
          current_date = ''2024-01-03'', snap_detection_price = Finite 40,
          snap_current_price = Finite 39, initial_change_pct = Finite 0,
          cumulative_change_pct = Finite (- (5 / 2)), snap_status = ''active'',
          days_since_detection = 1, initial_move_direction = ''loss'',
          initial_move_magnitude = Finite 0, momentum_continuation = NegInf,
          continued_direction = False\<rparr>,
         \<lparr>snap_ticker = ''C'', snap_date_detected = ''2024-01-02'', tracking_day = 1,
          current_date = ''2024-01-03'', snap_detection_price = Finite 40,
          snap_current_price = Finite 40, initial_change_pct = Finite 0,
          cumulative_change_pct = Finite 0, snap_status = ''active'',
          days_since_detection = 1, initial_move_direction = ''loss'',
          initial_move_magnitude = Finite 0, momentum_continuation = NaN,
          continued_direction = False\<rparr>,
         \<lparr>snap_ticker = ''D'', snap_date_detected = ''2024-01-02'', tracking_day = 1,
          current_date = ''2024-01-03'', snap_detection_price = Finite 40,
          snap_current_price = Finite 41, initial_change_pct = NegZero,
          cumulative_change_pct = Finite (5 / 2), snap_status = ''active'',
          days_since_detection = 1, initial_move_direction = ''loss'',
          initial_move_magnitude = Finite 0, momentum_continuation = NegInf,
          continued_direction = False\<rparr>]
   \<and> fl_div (Finite (5 / 2)) (Finite 0) = PosInf
   \<and> fl_div (Finite (- (5 / 2))) (Finite 0) = NegInf
   \<and> fl_div (Finite 0) (Finite 0) = NaN
   \<and> fl_div (Finite (5 / 2)) NegZero = NegInf
   \<and> PosInf \<noteq> NegInf \<and> PosInf \<noteq> NaN \<and> NegInf \<noteq> NaN"
  by (simp add: get_ml_ready_dataset_def parse_dates_def add_features_def snapshot.extend_def
        fl_div_def signed_inf_def)

text \<open>
  C5, as amended. In every row of the frame the feature extractor returns, the momentum
  continuation is the float quotient of the cumulative change by the initial change, with
  no special case and no exception. Where the initial change is a zero it is the result
  of the division by zero: NaN where the cumulative change is a zero or NaN, else an
  infinity, which is negative exactly when one of the cumulative change and the zero is
  negative. So for the positive zero it is \<open>+inf\<close> for a positive cumulative change and
  \<open>-inf\<close> for a negative one, and for the negative zero the other way round. Where both
  are finite and the initial change is not 0 it is the quotient rounded to a double, a
  zero divided by a negative number being the negative zero.
\<close>

theorem momentum_continuation_is_division:
  assumes "daily_snapshot_file s = Some df"
    and "get_ml_ready_dataset to_datetime s = Inr rows"
    and "i < length df"
  shows "length rows = length df
       \<and> snapshot.truncate (rows ! i) = df ! i
       \<and> momentum_continuation (rows ! i)
           = fl_div (cumulative_change_pct (df ! i)) (initial_change_pct (df ! i))
       \<and> (initial_change_pct (df ! i) = Finite 0
            \<longrightarrow> momentum_continuation (rows ! i)
                 = (if fl_less (Finite 0) (cumulative_change_pct (df ! i)) then PosInf
                    else if fl_less (cumulative_change_pct (df ! i)) (Finite 0) then NegInf
                    else NaN))
       \<and> (initial_change_pct (df ! i) = NegZero
            \<longrightarrow> momentum_continuation (rows ! i)
                 = (if fl_less (Finite 0) (cumulative_change_pct (df ! i)) then NegInf
                    else if fl_less (cumulative_change_pct (df ! i)) (Finite 0) then PosInf
                    else NaN))
       \<and> (initial_change_pct (df ! i) = Finite 0 \<or> initial_change_pct (df ! i) = NegZero
            \<longrightarrow> momentum_continuation (rows ! i)
                 = (if cumulative_change_pct (df ! i) = NaN
                       \<or> cumulative_change_pct (df ! i) = Finite 0
                       \<or> cumulative_change_pct (df ! i) = NegZero then NaN
                    else if negative (cumulative_change_pct (df ! i))
                              \<noteq> negative (initial_change_pct (df ! i)) then NegInf
                    else PosInf))
       \<and> (\<forall>a b. initial_change_pct (df ! i) = Finite a \<and> cumulative_change_pct (df ! i) = Finite b
                \<and> a \<noteq> 0
              \<longrightarrow> momentum_continuation (rows ! i)
                   = (if b = 0 then (if a < 0 then NegZero else Finite 0)
                      else round_double (b / a)))"
proof -
  from dataset_rows(2) [OF assms(1,2,3)] obtain dates
    where r: "rows ! i = add_features (df ! i) dates" by blast
  have m: "momentum_continuation (rows ! i)
           = fl_div (cumulative_change_pct (df ! i)) (initial_change_pct (df ! i))"
    unfolding r by (simp add: add_features_def snapshot.extend_def)
  have zero: "initial_change_pct (df ! i) = Finite 0
            \<longrightarrow> momentum_continuation (rows ! i)
                 = (if fl_less (Finite 0) (cumulative_change_pct (df ! i)) then PosInf
                    else if fl_less (cumulative_change_pct (df ! i)) (Finite 0) then NegInf
                    else NaN)"
    unfolding m
    by (cases "cumulative_change_pct (df ! i)") (auto simp: fl_div_zero)
  have negzero: "initial_change_pct (df ! i) = NegZero
            \<longrightarrow> momentum_continuation (rows ! i)
                 = (if fl_less (Finite 0) (cumulative_change_pct (df ! i)) then NegInf
                    else if fl_less (cumulative_change_pct (df ! i)) (Finite 0) then PosInf
                    else NaN)"
    unfolding m
    by (cases "cumulative_change_pct (df ! i)") (auto simp: fl_div_zero)
  have sign: "initial_change_pct (df ! i) = Finite 0 \<or> initial_change_pct (df ! i) = NegZero
            \<longrightarrow> momentum_continuation (rows ! i)
                 = (if cumulative_change_pct (df ! i) = NaN
                       \<or> cumulative_change_pct (df ! i) = Finite 0
                       \<or> cumulative_change_pct (df ! i) = NegZero then NaN
                    else if negative (cumulative_change_pct (df ! i))
                              \<noteq> negative (initial_change_pct (df ! i)) then NegInf
                    else PosInf)"
    unfolding m using fl_div_zero by blast
  have fin: "\<forall>a b. initial_change_pct (df ! i) = Finite a \<and> cumulative_change_pct (df ! i) = Finite b
                \<and> a \<noteq> 0
              \<longrightarrow> momentum_continuation (rows ! i)
                   = (if b = 0 then (if a < 0 then NegZero else Finite 0)
                      else round_double (b / a))"
    unfolding m by (auto simp: fl_div_def signed_zero_def)
  have snap: "length rows = length df \<and> snapshot.truncate (rows ! i) = df ! i"
    using dataset_rows(1) [OF assms(1,2)] r by (simp add: add_features_snapshot)
  show ?thesis
    using snap m zero negzero sign fin by blast
qed

theorem momentum_continuation_is_division_witness:
  "(let to_datetime = (\<lambda>d. if d = ''2024-01-02'' then Some 19724
                            else if d = ''2024-01-03'' then Some 19725 else None);
        zero = \<lparr>snap_ticker = ''A'', snap_date_detected = ''2024-01-02'', tracking_day = 1,
                 current_date = ''2024-01-03'', snap_detection_price = Finite 40,
                 snap_current_price = Finite 41, initial_change_pct = Finite 0,
                 cumulative_change_pct = Finite (5 / 2), snap_status = ''active''\<rparr>;
        six = \<lparr>snap_ticker = ''X'', snap_date_detected = ''2024-01-02'', tracking_day = 1,
                current_date = ''2024-01-03'', snap_detection_price = Finite 106,
                snap_current_price = Finite 109, initial_change_pct = Finite 6,
                cumulative_change_pct = Finite 3, snap_status = ''active''\<rparr>;
        s = \<lparr>tracking_file = None, historical_file = None, daily_snapshot_file = Some [zero, six]\<rparr>
    in (\<exists>rows. get_ml_ready_dataset to_datetime s = Inr rows
          \<and> length rows = 2
          \<and> snapshot.truncate (rows ! 0) = zero
          \<and> momentum_continuation (rows ! 0) = PosInf
          \<and> snapshot.truncate (rows ! 1) = six
          \<and> momentum_continuation (rows ! 1) = Finite (1 / 2)))"
proof -
  let ?td = "\<lambda>d. if d = ''2024-01-02'' then Some (19724::int)
                            else if d = ''2024-01-03'' then Some 19725 else None"
  let ?zero = "\<lparr>snap_ticker = ''A'', snap_date_detected = ''2024-01-02'', tracking_day = 1,
                 current_date = ''2024-01-03'', snap_detection_price = Finite 40,
                 snap_current_price = Finite 41, initial_change_pct = Finite 0,
                 cumulative_change_pct = Finite (5 / 2), snap_status = ''active''\<rparr>"
  let ?six = "\<lparr>snap_ticker = ''X'', snap_date_detected = ''2024-01-02'', tracking_day = 1,
                current_date = ''2024-01-03'', snap_detection_price = Finite 106,
                snap_current_price = Finite 109, initial_change_pct = Finite 6,
                cumulative_change_pct = Finite 3, snap_status = ''active''\<rparr>"
  let ?s = "\<lparr>tracking_file = None, historical_file = None, daily_snapshot_file = Some [?zero, ?six]\<rparr>"
  have h1: "daily_snapshot_file ?s = Some [?zero, ?six]" by simp
  have "\<forall>row \<in> set [?zero, ?six]. ?td (snap_date_detected row) \<noteq> None
                       \<and> ?td (current_date row) \<noteq> None"
    by simp
  from dataset_total [OF h1 this] obtain rows
    where h2: "get_ml_ready_dataset ?td ?s = Inr rows" by blast
  have i0: "0 < length [?zero, ?six]" and i1: "1 < length [?zero, ?six]" by simp_all
  note t0 = momentum_continuation_is_division [OF h1 h2 i0]
  note t1 = momentum_continuation_is_division [OF h1 h2 i1]
  from conjunct1 [OF t0] have a1: "length rows = 2" by simp
  from conjunct1 [OF conjunct2 [OF t0]]
  have a2: "snapshot.truncate (rows ! 0) = ?zero" by simp
  from conjunct1 [OF conjunct2 [OF conjunct2 [OF t0]]]
  have a3: "momentum_continuation (rows ! 0) = PosInf"
    by (simp add: fl_div_def signed_inf_def)
  from conjunct1 [OF conjunct2 [OF t1]]
  have b1: "snapshot.truncate (rows ! 1) = ?six" by simp
  from conjunct1 [OF conjunct2 [OF conjunct2 [OF t1]]]
  have b2: "momentum_continuation (rows ! 1) = Finite (1 / 2)"
    by (simp add: quotient_3_6)
  have "\<exists>rows. get_ml_ready_dataset ?td ?s = Inr rows
          \<and> length rows = 2
          \<and> snapshot.truncate (rows ! 0) = ?zero
          \<and> momentum_continuation (rows ! 0) = PosInf
          \<and> snapshot.truncate (rows ! 1) = ?six
          \<and> momentum_continuation (rows ! 1) = Finite (1 / 2)"
    by (intro exI conjI, rule h2, rule a1, rule a2, rule a3, rule b1, rule b2)
  then show ?thesis
    by (simp only: Let_def)
qed

text \<open>
  C6. For every symbol of the universe whose history has at least two closes, the detector
  computes \<open>(latest - previous) / previous * 100\<close> and emits, between the events of the
  symbols before it and those of the symbols after it, exactly one new event with
  observation count 0 and status \<open>active\<close> if the absolute change is at least the
  threshold, and nothing otherwise. The event records the latest close as detection
  price and the change rounded to 2 places. With threshold 5.0, closes [100, 106] give an
  event with initial change 6.0 and detection price 106, and closes [100, 104] give none.
  The change and the comparison are those of double arithmetic: closes [100, 129] give
  the change \<open>28.999999999999996\<close> and no event at threshold 29, closes [3.00, 3.15]
  give \<open>4.9999999999999964\<close> and no event at threshold 5.0, and closes [160, 183]
  give an event with initial change \<open>14.37\<close>.
\<close>

theorem detector_emits_iff_threshold:
  "(get_sp500_tickers wiki cache = Inr tickers \<and> i < length tickers
      \<and> fetch i = Closes hist \<and> 2 \<le> length hist
    \<longrightarrow> get_daily_movers threshold now wiki cache fetch =
          Inr (scan_movers threshold now fetch 0 (take i tickers) []
               @ (if fl_ge (fl_abs (fl_mul (fl_div (fl_sub (last hist) (hist ! (length hist - 2)))
                                                  (hist ! (length hist - 2))) (Finite 100)))
                           threshold
                  then [\<lparr>ticker = tickers ! i, date_detected = now, detection_price = last hist,
                         change_pct =
                           py_round (fl_mul (fl_div (fl_sub (last hist) (hist ! (length hist - 2)))
                                                    (hist ! (length hist - 2))) (Finite 100)) 2,
                         business_days_tracked = 0, status = ''active'',
                         current_price = NaN, total_change_pct = NaN, last_updated = None\<rparr>]
                  else [])
               @ scan_movers threshold now fetch (Suc i) (drop (Suc i) tickers) []))
   \<and> get_daily_movers (Finite 5) now (Got [''X'']) cache (\<lambda>i. Closes [Finite 100, Finite 106])
       = Inr [\<lparr>ticker = ''X'', date_detected = now, detection_price = Finite 106,
               change_pct = Finite 6, business_days_tracked = 0, status = ''active'',
               current_price = NaN, total_change_pct = NaN, last_updated = None\<rparr>]
   \<and> get_daily_movers (Finite 5) now (Got [''X'']) cache (\<lambda>i. Closes [Finite 100, Finite 104])
       = Inr []
   \<and> get_daily_movers (Finite 29) now (Got [''X'']) cache (\<lambda>i. Closes [Finite 100, Finite 129])
       = Inr []
   \<and> get_daily_movers (Finite 5) now (Got [''X'']) cache
         (\<lambda>i. Closes [Finite 3, round_double (315 / 100)])
       = Inr []
   \<and> get_daily_movers (Finite 5) now (Got [''X'']) cache (\<lambda>i. Closes [Finite 160, Finite 183])
       = Inr [\<lparr>ticker = ''X'', date_detected = now, detection_price = Finite 183,
               change_pct = round_double (1437 / 100), business_days_tracked = 0,
               status = ''active'', current_price = NaN, total_change_pct = NaN,
               last_updated = None\<rparr>]"
proof (intro conjI impI)
  assume a: "get_sp500_tickers wiki cache = Inr tickers \<and> i < length tickers
      \<and> fetch i = Closes hist \<and> 2 \<le> length hist"
  then have i: "i < length tickers" and h: "fetch i = Closes hist" and l: "2 \<le> length hist"
    and t: "get_sp500_tickers wiki cache = Inr tickers"
    by simp_all
  show "get_daily_movers threshold now wiki cache fetch =
          Inr (scan_movers threshold now fetch 0 (take i tickers) []
               @ (if fl_ge (fl_abs (fl_mul (fl_div (fl_sub (last hist) (hist ! (length hist - 2)))
                                                  (hist ! (length hist - 2))) (Finite 100)))
                           threshold
                  then [\<lparr>ticker = tickers ! i, date_detected = now, detection_price = last hist,
                         change_pct =
                           py_round (fl_mul (fl_div (fl_sub (last hist) (hist ! (length hist - 2)))
                                                    (hist ! (length hist - 2))) (Finite 100)) 2,
                         business_days_tracked = 0, status = ''active'',
                         current_price = NaN, total_change_pct = NaN, last_updated = None\<rparr>]
                  else [])
               @ scan_movers threshold now fetch (Suc i) (drop (Suc i) tickers) [])"
    using l by (simp add: get_daily_movers_def t scan_movers_split [OF i] h pct_change_def Let_def)
next
  show "get_daily_movers (Finite 5) now (Got [''X'']) cache (\<lambda>i. Closes [Finite 100, Finite 106])
       = Inr [\<lparr>ticker = ''X'', date_detected = now, detection_price = Finite 106,
               change_pct = Finite 6, business_days_tracked = 0, status = ''active'',
               current_price = NaN, total_change_pct = NaN, last_updated = None\<rparr>]"
    by (simp add: get_daily_movers_def replace_dot_def Let_def
          pct_change_100_106
          round_pct_change_100_106 [unfolded pct_change_100_106])
next
  show "get_daily_movers (Finite 5) now (Got [''X'']) cache (\<lambda>i. Closes [Finite 100, Finite 104])
       = Inr []"
    by (simp add: get_daily_movers_def replace_dot_def Let_def pct_change_100_104)
next
  show "get_daily_movers (Finite 29) now (Got [''X'']) cache (\<lambda>i. Closes [Finite 100, Finite 129])
       = Inr []"
    by (simp add: get_daily_movers_def replace_dot_def Let_def pct_change_100_129)
next
  show "get_daily_movers (Finite 5) now (Got [''X'']) cache
         (\<lambda>i. Closes [Finite 3, round_double (315 / 100)])
       = Inr []"
    using pct_change_3_00_3_15
    by (simp add: get_daily_movers_def replace_dot_def Let_def)
next
  show "get_daily_movers (Finite 5) now (Got [''X'']) cache (\<lambda>i. Closes [Finite 160, Finite 183])
       = Inr [\<lparr>ticker = ''X'', date_detected = now, detection_price = Finite 183,
               change_pct = round_double (1437 / 100), business_days_tracked = 0,
               status = ''active'', current_price = NaN, total_change_pct = NaN,
               last_updated = None\<rparr>]"
    using round_pct_change_160_183
    by (simp add: get_daily_movers_def replace_dot_def Let_def pct_change_160_183)
qed

theorem detector_emits_iff_threshold_witness:
  "(let fetch = (\<lambda>i::nat. if i = 0 then Closes [Finite 50, Finite 51]
                           else Closes [Finite 95, Finite 100, Finite 90])
    in get_sp500_tickers (Got [''A'', ''X.Y'']) None = Inr [''A'', ''X-Y'']
     \<and> (1::nat) < length [''A'', ''X-Y'']
     \<and> fetch 1 = Closes [Finite 95, Finite 100, Finite 90]
     \<and> 2 \<le> length [Finite 95, Finite 100, Finite 90]
     \<and> get_daily_movers (Finite 5) ''2024-01-02'' (Got [''A'', ''X.Y'']) None fetch
         = Inr [\<lparr>ticker = ''X-Y'', date_detected = ''2024-01-02'', detection_price = Finite 90,
                 change_pct = Finite (-10), business_days_tracked = 0, status = ''active'',
                 current_price = NaN, total_change_pct = NaN, last_updated = None\<rparr>])"
proof -
  let ?fetch = "\<lambda>i::nat. if i = 0 then Closes [Finite 50, Finite 51]
                           else Closes [Finite 95, Finite 100, Finite 90]"
  let ?hist = "[Finite 95, Finite 100, Finite 90]"
  let ?tickers = "[''A'', ''X-Y'']"
  have h: "get_sp500_tickers (Got [''A'', ''X.Y'']) None = Inr ?tickers \<and> (1::nat) < length ?tickers
      \<and> ?fetch 1 = Closes ?hist \<and> 2 \<le> length ?hist"
    by (simp add: replace_dot_def)
  have imp: "get_sp500_tickers (Got [''A'', ''X.Y'']) None = Inr ?tickers \<and> (1::nat) < length ?tickers
      \<and> ?fetch 1 = Closes ?hist \<and> 2 \<le> length ?hist
    \<longrightarrow> get_daily_movers (Finite 5) ''2024-01-02'' (Got [''A'', ''X.Y'']) None ?fetch =
          Inr (scan_movers (Finite 5) ''2024-01-02'' ?fetch 0 (take 1 ?tickers) []
               @ (if fl_ge (fl_abs (fl_mul (fl_div (fl_sub (last ?hist) (?hist ! (length ?hist - 2)))
                                                  (?hist ! (length ?hist - 2))) (Finite 100)))
                           (Finite 5)
                  then [\<lparr>ticker = ?tickers ! 1, date_detected = ''2024-01-02'', detection_price = last ?hist,
                         change_pct =
                           py_round (fl_mul (fl_div (fl_sub (last ?hist) (?hist ! (length ?hist - 2)))
                                                    (?hist ! (length ?hist - 2))) (Finite 100)) 2,
                         business_days_tracked = 0, status = ''active'',
                         current_price = NaN, total_change_pct = NaN, last_updated = None\<rparr>]
                  else [])
               @ scan_movers (Finite 5) ''2024-01-02'' ?fetch (Suc 1) (drop (Suc 1) ?tickers) [])"
    by (rule conjunct1 [OF detector_emits_iff_threshold
          [where wiki = "Got [''A'', ''X.Y'']" and cache = None and tickers = ?tickers and i = 1
             and fetch = ?fetch and hist = ?hist and threshold = "Finite 5"
             and now = "''2024-01-02''"]])
  from imp h have "get_daily_movers (Finite 5) ''2024-01-02'' (Got [''A'', ''X.Y'']) None ?fetch =
          Inr (scan_movers (Finite 5) ''2024-01-02'' ?fetch 0 (take 1 ?tickers) []
               @ (if fl_ge (fl_abs (fl_mul (fl_div (fl_sub (last ?hist) (?hist ! (length ?hist - 2)))
                                                  (?hist ! (length ?hist - 2))) (Finite 100)))
                           (Finite 5)
                  then [\<lparr>ticker = ?tickers ! 1, date_detected = ''2024-01-02'', detection_price = last ?hist,
                         change_pct =
                           py_round (fl_mul (fl_div (fl_sub (last ?hist) (?hist ! (length ?hist - 2)))
                                                    (?hist ! (length ?hist - 2))) (Finite 100)) 2,
                         business_days_tracked = 0, status = ''active'',
                         current_price = NaN, total_change_pct = NaN, last_updated = None\<rparr>]
                  else [])
               @ scan_movers (Finite 5) ''2024-01-02'' ?fetch (Suc 1) (drop (Suc 1) ?tickers) [])"
    by (rule mp)
  then have "get_daily_movers (Finite 5) ''2024-01-02'' (Got [''A'', ''X.Y'']) None ?fetch
         = Inr [\<lparr>ticker = ''X-Y'', date_detected = ''2024-01-02'', detection_price = Finite 90,
                 change_pct = Finite (-10), business_days_tracked = 0, status = ''active'',
                 current_price = NaN, total_change_pct = NaN, last_updated = None\<rparr>]"
    by (simp add: pct_change_def [symmetric] Let_def
          pct_change_50_51 pct_change_100_90
          round_pct_change_100_90 [unfolded pct_change_100_90])
  with h show ?thesis
    by (simp only: Let_def)
qed



text \<open>
  C8. In every row of the frame the feature extractor returns,
  \<open>continued_direction\<close> is true exactly when the initial and the cumulative change of
  the snapshot are both strictly positive or both strictly negative; for finite values
  \<open>a\<close> and \<open>b\<close> that is \<open>(0 < a \<and> 0 < b) \<or> (a < 0 \<and> b < 0)\<close>. Whenever either value is
  exactly zero, positive or negative, it is false, whatever the other value is.
\<close>

theorem continued_direction_same_sign:
  assumes "daily_snapshot_file s = Some df"
    and "get_ml_ready_dataset to_datetime s = Inr rows"
    and "i < length df"
  shows "length rows = length df
       \<and> snapshot.truncate (rows ! i) = df ! i
       \<and> (continued_direction (rows ! i)
            = ((fl_less (Finite 0) (initial_change_pct (df ! i))
                  \<and> fl_less (Finite 0) (cumulative_change_pct (df ! i)))
               \<or> (fl_less (initial_change_pct (df ! i)) (Finite 0)
                  \<and> fl_less (cumulative_change_pct (df ! i)) (Finite 0))))
       \<and> (\<forall>a b. initial_change_pct (df ! i) = Finite a \<and> cumulative_change_pct (df ! i) = Finite b
              \<longrightarrow> continued_direction (rows ! i) = ((0 < a \<and> 0 < b) \<or> (a < 0 \<and> b < 0)))
       \<and> (initial_change_pct (df ! i) = Finite 0 \<or> cumulative_change_pct (df ! i) = Finite 0
            \<longrightarrow> \<not> continued_direction (rows ! i))
       \<and> (initial_change_pct (df ! i) = NegZero \<or> cumulative_change_pct (df ! i) = NegZero
            \<longrightarrow> \<not> continued_direction (rows ! i))"
proof -
  from dataset_rows(2) [OF assms(1,2,3)] obtain dates
    where r: "rows ! i = add_features (df ! i) dates" by blast
  have cd: "continued_direction (rows ! i)
            = ((fl_less (Finite 0) (initial_change_pct (df ! i))
                  \<and> fl_less (Finite 0) (cumulative_change_pct (df ! i)))
               \<or> (fl_less (initial_change_pct (df ! i)) (Finite 0)
                  \<and> fl_less (cumulative_change_pct (df ! i)) (Finite 0)))"
    unfolding r by (simp add: add_features_def snapshot.extend_def)
  have fin: "\<forall>a b. initial_change_pct (df ! i) = Finite a \<and> cumulative_change_pct (df ! i) = Finite b
              \<longrightarrow> continued_direction (rows ! i) = ((0 < a \<and> 0 < b) \<or> (a < 0 \<and> b < 0))"
    unfolding cd by simp
  have zero: "initial_change_pct (df ! i) = Finite 0 \<or> cumulative_change_pct (df ! i) = Finite 0
            \<longrightarrow> \<not> continued_direction (rows ! i)"
    unfolding cd
    by (cases "initial_change_pct (df ! i)"; cases "cumulative_change_pct (df ! i)") auto
  have negzero: "initial_change_pct (df ! i) = NegZero \<or> cumulative_change_pct (df ! i) = NegZero
            \<longrightarrow> \<not> continued_direction (rows ! i)"
    unfolding cd
    by (cases "initial_change_pct (df ! i)"; cases "cumulative_change_pct (df ! i)") auto
  have snap: "length rows = length df \<and> snapshot.truncate (rows ! i) = df ! i"
    using dataset_rows(1) [OF assms(1,2)] r by (simp add: add_features_snapshot)
  show ?thesis
    using snap cd fin zero negzero by blast
qed

theorem continued_direction_same_sign_witness:
  "(let to_datetime = (\<lambda>d. if d = ''2024-01-02'' then Some 19724
                            else if d = ''2024-01-03'' then Some 19725 else None);
        flat = \<lparr>snap_ticker = ''X'', snap_date_detected = ''2024-01-02'', tracking_day = 1,
                 current_date = ''2024-01-03'', snap_detection_price = Finite 106,
                 snap_current_price = Finite 106, initial_change_pct = Finite 6,
                 cumulative_change_pct = Finite 0, snap_status = ''active''\<rparr>;
        up = \<lparr>snap_ticker = ''Y'', snap_date_detected = ''2024-01-02'', tracking_day = 1,
               current_date = ''2024-01-03'', snap_detection_price = Finite 50,
               snap_current_price = Finite 52, initial_change_pct = Finite 7,
               cumulative_change_pct = Finite 4, snap_status = ''active''\<rparr>;
        s = \<lparr>tracking_file = None, historical_file = None, daily_snapshot_file = Some [flat, up]\<rparr>
    in (\<exists>rows. get_ml_ready_dataset to_datetime s = Inr rows
          \<and> length rows = 2
          \<and> snapshot.truncate (rows ! 0) = flat
          \<and> \<not> continued_direction (rows ! 0)
          \<and> snapshot.truncate (rows ! 1) = up
          \<and> continued_direction (rows ! 1)))"
proof -
  let ?td = "\<lambda>d. if d = ''2024-01-02'' then Some (19724::int)
                            else if d = ''2024-01-03'' then Some 19725 else None"
  let ?flat = "\<lparr>snap_ticker = ''X'', snap_date_detected = ''2024-01-02'', tracking_day = 1,
                 current_date = ''2024-01-03'', snap_detection_price = Finite 106,
                 snap_current_price = Finite 106, initial_change_pct = Finite 6,
                 cumulative_change_pct = Finite 0, snap_status = ''active''\<rparr>"
  let ?up = "\<lparr>snap_ticker = ''Y'', snap_date_detected = ''2024-01-02'', tracking_day = 1,
               current_date = ''2024-01-03'', snap_detection_price = Finite 50,
               snap_current_price = Finite 52, initial_change_pct = Finite 7,
               cumulative_change_pct = Finite 4, snap_status = ''active''\<rparr>"
  let ?s = "\<lparr>tracking_file = None, historical_file = None, daily_snapshot_file = Some [?flat, ?up]\<rparr>"
  have h1: "daily_snapshot_file ?s = Some [?flat, ?up]" by simp
  have "\<forall>row \<in> set [?flat, ?up]. ?td (snap_date_detected row) \<noteq> None
                       \<and> ?td (current_date row) \<noteq> None"
    by simp
  from dataset_total [OF h1 this] obtain rows
    where h2: "get_ml_ready_dataset ?td ?s = Inr rows" by blast
  have i0: "0 < length [?flat, ?up]" and i1: "1 < length [?flat, ?up]" by simp_all
  from continued_direction_same_sign [OF h1 h2 i0]
  have a: "length rows = 2" "snapshot.truncate (rows ! 0) = ?flat" "\<not> continued_direction (rows ! 0)"
    by simp_all
  from continued_direction_same_sign [OF h1 h2 i1]
  have b: "snapshot.truncate (rows ! 1) = ?up" "continued_direction (rows ! 1)"
    by simp_all
  have "\<exists>rows. get_ml_ready_dataset ?td ?s = Inr rows
          \<and> length rows = 2
          \<and> snapshot.truncate (rows ! 0) = ?flat
          \<and> \<not> continued_direction (rows ! 0)
          \<and> snapshot.truncate (rows ! 1) = ?up
          \<and> continued_direction (rows ! 1)"
    by (intro exI conjI, rule h2, rule a(1), rule a(2), rule a(3), rule b(1), rule b(2))
  then show ?thesis
    by (simp only: Let_def)
qed

text \<open>
  C9. Over every sequence of runs of the updater, the detection price and the initial
  change percent of every event stay what they were; a run changes nothing of a row but
  its observation count, current price, cumulative change, last-updated date and status:
  putting the old values of these five fields back gives the old row.
\<close>

theorem updater_frame:
  assumes "tracking_file s = Some df"
  shows "\<exists>dfn. tracking_file (updater_runs runs s) = Some dfn \<and> length dfn = length df
           \<and> (\<forall>i < length df.
                 detection_price (dfn ! i) = detection_price (df ! i)
               \<and> change_pct (dfn ! i) = change_pct (df ! i)
               \<and> (dfn ! i)\<lparr>business_days_tracked := business_days_tracked (df ! i),
                             current_price := current_price (df ! i),
                             total_change_pct := total_change_pct (df ! i),
                             last_updated := last_updated (df ! i),
                             status := status (df ! i)\<rparr> = df ! i)"
proof -
  let ?R = "\<lambda>r1 r2 :: tracking_row.
              r2\<lparr>business_days_tracked := business_days_tracked r1,
                  current_price := current_price r1,
                  total_change_pct := total_change_pct r1,
                  last_updated := last_updated r1,
                  status := status r1\<rparr> = r1"
  have refl: "\<And>row. ?R row row" by simp
  have step: "\<And>r1 r2 now cp. ?R r1 r2 \<Longrightarrow> ?R r1 (step_row now cp r2)"
  proof -
    fix r1 r2 :: tracking_row and now cp
    assume a: "?R r1 r2"
    have "(step_row now cp r2)\<lparr>business_days_tracked := business_days_tracked r1,
                  current_price := current_price r1,
                  total_change_pct := total_change_pct r1,
                  last_updated := last_updated r1,
                  status := status r1\<rparr>
          = r2\<lparr>business_days_tracked := business_days_tracked r1,
                  current_price := current_price r1,
                  total_change_pct := total_change_pct r1,
                  last_updated := last_updated r1,
                  status := status r1\<rparr>"
      by (simp add: step_row_eq split: option.splits)
    with a show "?R r1 (step_row now cp r2)" by simp
  qed
  from updater_runs_rel [where R = ?R, OF assms refl step, of runs]
  obtain dfn where dfn: "tracking_file (updater_runs runs s) = Some dfn" "length dfn = length df"
    "\<forall>i < length df. ?R (df ! i) (dfn ! i)" by blast
  have "\<forall>i < length df. detection_price (dfn ! i) = detection_price (df ! i)
               \<and> change_pct (dfn ! i) = change_pct (df ! i)"
  proof (intro allI impI)
    fix i assume "i < length df"
    with dfn(3) have e: "?R (df ! i) (dfn ! i)" by blast
    have "detection_price (dfn ! i) = detection_price ((dfn ! i)\<lparr>business_days_tracked := business_days_tracked (df ! i),
                  current_price := current_price (df ! i),
                  total_change_pct := total_change_pct (df ! i),
                  last_updated := last_updated (df ! i),
                  status := status (df ! i)\<rparr>)" by simp
    moreover have "change_pct (dfn ! i) = change_pct ((dfn ! i)\<lparr>business_days_tracked := business_days_tracked (df ! i),
                  current_price := current_price (df ! i),
                  total_change_pct := total_change_pct (df ! i),
                  last_updated := last_updated (df ! i),
                  status := status (df ! i)\<rparr>)" by simp
    ultimately show "detection_price (dfn ! i) = detection_price (df ! i)
               \<and> change_pct (dfn ! i) = change_pct (df ! i)"
      using e by simp
  qed
  with dfn show ?thesis by blast
qed

theorem updater_frame_witness:
  "(let df = [\<lparr>ticker = ''X'', date_detected = ''2024-01-02'', detection_price = Finite 100,
                change_pct = Finite 6, business_days_tracked = 3, status = ''active'',
                current_price = Finite 108, total_change_pct = Finite 8,
                last_updated = Some ''2024-01-05''\<rparr>];
        s = \<lparr>tracking_file = Some df, historical_file = None, daily_snapshot_file = None\<rparr>;
        runs = [(''2024-01-08'', \<lambda>i. Closes [Finite 104]), (''2024-01-09'', \<lambda>i. Raised)]
    in tracking_file (updater_runs runs s) =
         Some [\<lparr>ticker = ''X'', date_detected = ''2024-01-02'', detection_price = Finite 100,
                change_pct = Finite 6, business_days_tracked = 4, status = ''active'',
                current_price = Finite 104, total_change_pct = Finite 4,
                last_updated = Some ''2024-01-08''\<rparr>]
     \<and> (\<exists>dfn. tracking_file (updater_runs runs s) = Some dfn
            \<and> detection_price (dfn ! 0) = detection_price (df ! 0)
            \<and> change_pct (dfn ! 0) = change_pct (df ! 0)))"
proof -
  let ?df = "[\<lparr>ticker = ''X'', date_detected = ''2024-01-02'', detection_price = Finite 100,
                change_pct = Finite 6, business_days_tracked = 3, status = ''active'',
                current_price = Finite 108, total_change_pct = Finite 8,
                last_updated = Some ''2024-01-05''\<rparr>]"
  let ?s = "\<lparr>tracking_file = Some ?df, historical_file = None, daily_snapshot_file = None\<rparr>"
  let ?runs = "[(''2024-01-08'', \<lambda>i::nat. Closes [Finite 104]), (''2024-01-09'', \<lambda>i::nat. Raised)]"
  have h1: "tracking_file ?s = Some ?df" by simp
  have ev: "tracking_file (updater_runs ?runs ?s) =
         Some [\<lparr>ticker = ''X'', date_detected = ''2024-01-02'', detection_price = Finite 100,
                change_pct = Finite 6, business_days_tracked = 4, status = ''active'',
                current_price = Finite 104, total_change_pct = Finite 4,
                last_updated = Some ''2024-01-08''\<rparr>]"
    by (simp add: track_existing_stocks_def active_stocks_def current_prices_of_def dict_get_def
          Let_def round_pct_change_100_110 round_pct_change_100_104)
  from updater_frame [OF h1, of ?runs] obtain dfn where
    "tracking_file (updater_runs ?runs ?s) = Some dfn"
    "\<forall>i < length ?df. detection_price (dfn ! i) = detection_price (?df ! i)
               \<and> change_pct (dfn ! i) = change_pct (?df ! i)"
    by blast
  then have "\<exists>dfn. tracking_file (updater_runs ?runs ?s) = Some dfn
            \<and> detection_price (dfn ! 0) = detection_price (?df ! 0)
            \<and> change_pct (dfn ! 0) = change_pct (?df ! 0)"
    by auto
  with ev show ?thesis by (simp add: Let_def)
qed

text \<open>
  C10. In a run of the updater, the snapshots returned (and appended to the snapshot file)
  are the snapshots appended for the rows of the ledger, in the order of the rows. For every
  event that is updated (active, price available) exactly one snapshot is appended, and its
  tracking day is the observation count of the event after the update; for every other
  event none is appended and the row stays as it is. So over any sequence of runs the
  tracking days of the snapshots appended for an event are the numbers from its old count
  plus 1 to its new count: their number is the growth of the count, and for an event that
  starts with count 0 (as the detector creates it) the number of its snapshots equals its
  observation count. The snapshot file grows by exactly the snapshots of the events.
\<close>

theorem one_snapshot_per_update:
  assumes "tracking_file s = Some df"
  shows "snd (track_existing_stocks now fetch s)
           = concat (map (appended_for now fetch s) [0..<length df])
       \<and> (\<exists>df'. tracking_file (fst (track_existing_stocks now fetch s)) = Some df'
             \<and> length df' = length df
             \<and> (\<forall>i < length df.
                   (status (df ! i) = ''active''
                      \<and> dict_get (current_prices_of fetch df) (ticker (df ! i)) \<noteq> None
                    \<longrightarrow> (\<exists>snap. appended_for now fetch s i = [snap]
                           \<and> tracking_day snap = business_days_tracked (df' ! i)
                           \<and> business_days_tracked (df' ! i) = business_days_tracked (df ! i) + 1
                           \<and> snap_ticker snap = ticker (df' ! i)
                           \<and> snap_date_detected snap = date_detected (df' ! i)))
                 \<and> (\<not> (status (df ! i) = ''active''
                         \<and> dict_get (current_prices_of fetch df) (ticker (df ! i)) \<noteq> None)
                    \<longrightarrow> appended_for now fetch s i = [] \<and> df' ! i = df ! i)))
       \<and> (\<exists>dfn. tracking_file (updater_runs runs s) = Some dfn
             \<and> length dfn = length df
             \<and> (\<forall>i < length df.
                   map tracking_day (snapshots_of_event i runs s)
                     = [business_days_tracked (df ! i) + 1 .. business_days_tracked (dfn ! i)]
                 \<and> int (length (snapshots_of_event i runs s))
                     = business_days_tracked (dfn ! i) - business_days_tracked (df ! i)
                 \<and> (business_days_tracked (df ! i) = 0
                    \<longrightarrow> int (length (snapshots_of_event i runs s)) = business_days_tracked (dfn ! i))))
       \<and> mset (snapshot_log (updater_runs runs s))
           = mset (snapshot_log s) + (\<Sum>i<length df. mset (snapshots_of_event i runs s))"
proof (intro conjI)
  show "snd (track_existing_stocks now fetch s)
           = concat (map (appended_for now fetch s) [0..<length df])"
    by (rule daily_updates_concat [OF assms])
next
  let ?cp = "current_prices_of fetch df"
  let ?df' = "map (step_row now ?cp) df"
  have l: "tracking_file (fst (track_existing_stocks now fetch s)) = Some ?df'"
    by (rule ledger_after_run [OF assms])
  have rows: "\<forall>i < length df.
                   (status (df ! i) = ''active''
                      \<and> dict_get ?cp (ticker (df ! i)) \<noteq> None
                    \<longrightarrow> (\<exists>snap. appended_for now fetch s i = [snap]
                           \<and> tracking_day snap = business_days_tracked (?df' ! i)
                           \<and> business_days_tracked (?df' ! i) = business_days_tracked (df ! i) + 1
                           \<and> snap_ticker snap = ticker (?df' ! i)
                           \<and> snap_date_detected snap = date_detected (?df' ! i)))
                 \<and> (\<not> (status (df ! i) = ''active''
                         \<and> dict_get ?cp (ticker (df ! i)) \<noteq> None)
                    \<longrightarrow> appended_for now fetch s i = [] \<and> ?df' ! i = df ! i)"
  proof (intro allI impI)
    fix i assume i: "i < length df"
    have nth: "?df' ! i = step_row now ?cp (df ! i)" using i by simp
    have key: "ticker (step_row now ?cp (df ! i)) = ticker (df ! i)"
      "date_detected (step_row now ?cp (df ! i)) = date_detected (df ! i)"
      by (simp_all add: step_row_eq split: option.splits)
    show "(status (df ! i) = ''active''
                      \<and> dict_get ?cp (ticker (df ! i)) \<noteq> None
                    \<longrightarrow> (\<exists>snap. appended_for now fetch s i = [snap]
                           \<and> tracking_day snap = business_days_tracked (?df' ! i)
                           \<and> business_days_tracked (?df' ! i) = business_days_tracked (df ! i) + 1
                           \<and> snap_ticker snap = ticker (?df' ! i)
                           \<and> snap_date_detected snap = date_detected (?df' ! i)))
                 \<and> (\<not> (status (df ! i) = ''active''
                         \<and> dict_get ?cp (ticker (df ! i)) \<noteq> None)
                    \<longrightarrow> appended_for now fetch s i = [] \<and> ?df' ! i = df ! i)"
      unfolding nth key
      using appended_for_cases [OF assms i, of fetch now] by force
  qed
  show "\<exists>df'. tracking_file (fst (track_existing_stocks now fetch s)) = Some df'
             \<and> length df' = length df
             \<and> (\<forall>i < length df.
                   (status (df ! i) = ''active''
                      \<and> dict_get (current_prices_of fetch df) (ticker (df ! i)) \<noteq> None
                    \<longrightarrow> (\<exists>snap. appended_for now fetch s i = [snap]
                           \<and> tracking_day snap = business_days_tracked (df' ! i)
                           \<and> business_days_tracked (df' ! i) = business_days_tracked (df ! i) + 1
                           \<and> snap_ticker snap = ticker (df' ! i)
                           \<and> snap_date_detected snap = date_detected (df' ! i)))
                 \<and> (\<not> (status (df ! i) = ''active''
                         \<and> dict_get (current_prices_of fetch df) (ticker (df ! i)) \<noteq> None)
                    \<longrightarrow> appended_for now fetch s i = [] \<and> df' ! i = df ! i))"
    using l rows by (intro exI [of _ ?df']) simp
next
  from updater_runs_mono [OF assms, of runs] obtain dfn where
    dfn: "tracking_file (updater_runs runs s) = Some dfn" "length dfn = length df"
      "\<forall>i < length df. business_days_tracked (df ! i) \<le> business_days_tracked (dfn ! i)"
    by blast
  have "\<forall>i < length df.
                   map tracking_day (snapshots_of_event i runs s)
                     = [business_days_tracked (df ! i) + 1 .. business_days_tracked (dfn ! i)]
                 \<and> int (length (snapshots_of_event i runs s))
                     = business_days_tracked (dfn ! i) - business_days_tracked (df ! i)
                 \<and> (business_days_tracked (df ! i) = 0
                    \<longrightarrow> int (length (snapshots_of_event i runs s)) = business_days_tracked (dfn ! i))"
  proof (intro allI impI)
    fix i assume i: "i < length df"
    from snapshots_of_event_days [OF assms i, of runs] dfn(1)
    have days: "map tracking_day (snapshots_of_event i runs s)
                     = [business_days_tracked (df ! i) + 1 .. business_days_tracked (dfn ! i)]"
      by auto
    from dfn(3) i have mono: "business_days_tracked (df ! i) \<le> business_days_tracked (dfn ! i)"
      by simp
    have "length (map tracking_day (snapshots_of_event i runs s))
            = length [business_days_tracked (df ! i) + 1 .. business_days_tracked (dfn ! i)]"
      by (simp only: days)
    then have len: "int (length (snapshots_of_event i runs s))
                     = business_days_tracked (dfn ! i) - business_days_tracked (df ! i)"
      using mono by simp
    show "map tracking_day (snapshots_of_event i runs s)
                     = [business_days_tracked (df ! i) + 1 .. business_days_tracked (dfn ! i)]
                 \<and> int (length (snapshots_of_event i runs s))
                     = business_days_tracked (dfn ! i) - business_days_tracked (df ! i)
                 \<and> (business_days_tracked (df ! i) = 0
                    \<longrightarrow> int (length (snapshots_of_event i runs s)) = business_days_tracked (dfn ! i))"
      using days len by simp
  qed
  with dfn(1,2) show "\<exists>dfn. tracking_file (updater_runs runs s) = Some dfn
             \<and> length dfn = length df
             \<and> (\<forall>i < length df.
                   map tracking_day (snapshots_of_event i runs s)
                     = [business_days_tracked (df ! i) + 1 .. business_days_tracked (dfn ! i)]
                 \<and> int (length (snapshots_of_event i runs s))
                     = business_days_tracked (dfn ! i) - business_days_tracked (df ! i)
                 \<and> (business_days_tracked (df ! i) = 0
                    \<longrightarrow> int (length (snapshots_of_event i runs s)) = business_days_tracked (dfn ! i)))"
    by blast
next
  show "mset (snapshot_log (updater_runs runs s))
           = mset (snapshot_log s) + (\<Sum>i<length df. mset (snapshots_of_event i runs s))"
    by (rule log_after_runs [OF assms])
qed

theorem one_snapshot_per_update_witness:
  "(let row = \<lparr>ticker = ''X'', date_detected = ''2024-01-02'', detection_price = Finite 100,
                change_pct = Finite 6, business_days_tracked = 0, status = ''active'',
                current_price = NaN, total_change_pct = NaN, last_updated = None\<rparr>;
        s = \<lparr>tracking_file = Some [row], historical_file = None, daily_snapshot_file = None\<rparr>;
        runs = [(''2024-01-03'', \<lambda>i. Closes [Finite 104]), (''2024-01-04'', \<lambda>i. Raised),
                (''2024-01-05'', \<lambda>i. Closes [Finite 110])]
    in (\<exists>dfn. tracking_file (updater_runs runs s) = Some dfn
          \<and> business_days_tracked (dfn ! 0) = 2
          \<and> map tracking_day (snapshots_of_event 0 runs s) = [1, 2]
          \<and> int (length (snapshots_of_event 0 runs s)) = business_days_tracked (dfn ! 0))
     \<and> length (snapshot_log (updater_runs runs s)) = 2)"
proof -
  let ?row = "\<lparr>ticker = ''X'', date_detected = ''2024-01-02'', detection_price = Finite 100,
                change_pct = Finite 6, business_days_tracked = 0, status = ''active'',
                current_price = NaN, total_change_pct = NaN, last_updated = None\<rparr>"
  let ?s = "\<lparr>tracking_file = Some [?row], historical_file = None, daily_snapshot_file = None\<rparr>"
  let ?runs = "[(''2024-01-03'', \<lambda>i::nat. Closes [Finite 104]), (''2024-01-04'', \<lambda>i::nat. Raised),
                (''2024-01-05'', \<lambda>i::nat. Closes [Finite 110])]"
  have h1: "tracking_file ?s = Some [?row]" by simp
  have ev: "tracking_file (updater_runs ?runs ?s) =
         Some [?row\<lparr>business_days_tracked := 2, current_price := Finite 110,
                 total_change_pct := Finite 10, last_updated := Some ''2024-01-05''\<rparr>]"
    by (simp add: track_existing_stocks_def active_stocks_def current_prices_of_def dict_get_def
          Let_def round_pct_change_100_110 round_pct_change_100_104)
  have lg: "length (snapshot_log (updater_runs ?runs ?s)) = 2"
    by (simp add: track_existing_stocks_def active_stocks_def current_prices_of_def dict_get_def
          Let_def round_pct_change_100_110 round_pct_change_100_104 snapshot_log_def)
  from one_snapshot_per_update [OF h1, of "''2024-01-03''" "\<lambda>i::nat. Raised" ?runs]
  obtain dfn where
    dfn: "tracking_file (updater_runs ?runs ?s) = Some dfn"
    and all: "\<forall>i < length [?row].
                   map tracking_day (snapshots_of_event i ?runs ?s)
                     = [business_days_tracked ([?row] ! i) + 1 .. business_days_tracked (dfn ! i)]
                 \<and> int (length (snapshots_of_event i ?runs ?s))
                     = business_days_tracked (dfn ! i) - business_days_tracked ([?row] ! i)
                 \<and> (business_days_tracked ([?row] ! i) = 0
                    \<longrightarrow> int (length (snapshots_of_event i ?runs ?s)) = business_days_tracked (dfn ! i))"
    by blast
  from dfn ev have d2: "business_days_tracked (dfn ! 0) = 2" by simp
  from all have "map tracking_day (snapshots_of_event 0 ?runs ?s)
                     = [business_days_tracked ([?row] ! 0) + 1 .. business_days_tracked (dfn ! 0)]
                 \<and> int (length (snapshots_of_event 0 ?runs ?s)) = business_days_tracked (dfn ! 0)"
    by simp
  then have days: "map tracking_day (snapshots_of_event 0 ?runs ?s) = [1, 2]"
    and len: "int (length (snapshots_of_event 0 ?runs ?s)) = business_days_tracked (dfn ! 0)"
    unfolding d2 by (simp_all add: upto_rec1)
  have "tracking_file (updater_runs ?runs ?s) = Some dfn
          \<and> business_days_tracked (dfn ! 0) = 2
          \<and> map tracking_day (snapshots_of_event 0 ?runs ?s) = [1, 2]
          \<and> int (length (snapshots_of_event 0 ?runs ?s)) = business_days_tracked (dfn ! 0)"
    by (intro conjI dfn d2 days len)
  then have "\<exists>dfn. tracking_file (updater_runs ?runs ?s) = Some dfn
          \<and> business_days_tracked (dfn ! 0) = 2
          \<and> map tracking_day (snapshots_of_event 0 ?runs ?s) = [1, 2]
          \<and> int (length (snapshots_of_event 0 ?runs ?s)) = business_days_tracked (dfn ! 0)"
    by (rule exI)
  then show ?thesis
    unfolding Let_def using lg by (rule conjI)
qed

end
